theory Spec2Isabelle
  imports Complex_Main
begin

section \<open>ECMAScript Number values\<close>

text \<open>
  The amount of an invoice is an ECMAScript Number: an IEEE-754 binary64 value. A finite
  value is kept as the rational it denotes (\<open>Num 0\<close> is +0), with the three values that
  are not rationals, and the negative zero, as constructors of their own.
\<close>

datatype number = NaN | PosInfinity | NegInfinity | NegZero | Num rat

fun bit_length :: "int \<Rightarrow> nat" where
  "bit_length n = (if n \<le> 0 then 0 else Suc (bit_length (n div 2)))"

declare bit_length.simps [simp del]

definition pow2 :: "int \<Rightarrow> rat" where
  "pow2 k = (if 0 \<le> k then of_int (2 ^ nat k) else 1 / of_int (2 ^ nat (- k)))"

definition pow10 :: "int \<Rightarrow> rat" where
  "pow10 k = (if 0 \<le> k then of_int (10 ^ nat k) else 1 / of_int (10 ^ nat (- k)))"

text \<open>The binade of a positive rational \<open>q\<close>: the \<open>e\<close> with \<open>2^e \<le> q < 2^(e+1)\<close>.\<close>

definition binade :: "rat \<Rightarrow> int" where
  "binade q =
     (let (a, b) = quotient_of q;
          k = int (bit_length a) - int (bit_length b)
      in if pow2 k \<le> q then k else k - 1)"

definition round_half_even :: "rat \<Rightarrow> int" where
  "round_half_even x =
     (let f = \<lfloor>x\<rfloor>; d = x - of_int f
      in if d < 1 / 2 then f
         else if 1 / 2 < d then f + 1
         else if even f then f else f + 1)"

text \<open>
  The Number value for a rational of magnitude \<open>q \<ge> 0\<close> and the given sign: the nearest
  binary64 (53 significant bits, exponents from -1022 with subnormals below), ties to
  even, and the infinities from \<open>2^1024\<close> on.
\<close>

definition to_binary64 :: "bool \<Rightarrow> rat \<Rightarrow> number" where
  "to_binary64 neg q =
     (if q = 0 then (if neg then NegZero else Num 0)
      else
        let e = max (binade q) (- 1022);
            ulp = pow2 (e - 52);
            r = of_int (round_half_even (q / ulp)) * ulp
        in if pow2 1024 \<le> r then (if neg then NegInfinity else PosInfinity)
           else if r = 0 then (if neg then NegZero else Num 0)
           else Num (if neg then - r else r))"

fun is_negative :: "number \<Rightarrow> bool" where
  "is_negative NaN = False"
| "is_negative PosInfinity = False"
| "is_negative NegInfinity = True"
| "is_negative NegZero = True"
| "is_negative (Num q) = (q < 0)"

fun is_infinite :: "number \<Rightarrow> bool" where
  "is_infinite PosInfinity = True"
| "is_infinite NegInfinity = True"
| "is_infinite _ = False"

fun magnitude :: "number \<Rightarrow> rat" where
  "magnitude (Num q) = \<bar>q\<bar>"
| "magnitude _ = 0"

text \<open>The operator \<open>*\<close> on Numbers (Number::multiply).\<close>

definition number_times :: "number \<Rightarrow> number \<Rightarrow> number" where
  "number_times x y =
     (if x = NaN \<or> y = NaN then NaN
      else if is_infinite x \<or> is_infinite y then
        (if (\<not> is_infinite x \<and> magnitude x = 0) \<or> (\<not> is_infinite y \<and> magnitude y = 0) then NaN
         else if is_negative x \<noteq> is_negative y then NegInfinity else PosInfinity)
      else to_binary64 (is_negative x \<noteq> is_negative y) (magnitude x * magnitude y))"

text \<open>The operator \<open><=\<close> on Numbers: false when an operand is NaN; -0 and +0 are equal.\<close>

fun rank :: "number \<Rightarrow> int \<times> rat" where
  "rank NegInfinity = (- 1, 0)"
| "rank PosInfinity = (1, 0)"
| "rank NegZero = (0, 0)"
| "rank (Num q) = (0, q)"
| "rank NaN = (0, 0)"

definition number_le :: "number \<Rightarrow> number \<Rightarrow> bool" where
  "number_le x y =
     (x \<noteq> NaN \<and> y \<noteq> NaN \<and>
      (fst (rank x) < fst (rank y) \<or> (fst (rank x) = fst (rank y) \<and> snd (rank x) \<le> snd (rank y))))"

definition number_lt :: "number \<Rightarrow> number \<Rightarrow> bool" where
  "number_lt x y =
     (x \<noteq> NaN \<and> y \<noteq> NaN \<and>
      (fst (rank x) < fst (rank y) \<or> (fst (rank x) = fst (rank y) \<and> snd (rank x) < snd (rank y))))"

subsection \<open>StringToNumber\<close>

text \<open>
  Strings are Isabelle strings; of the white space and line terminators of ECMAScript
  these hold TAB, LF, VT, FF, CR, SP and NBSP.
\<close>

definition is_white_space :: "char \<Rightarrow> bool" where
  "is_white_space c = ((of_char c :: nat) \<in> {9, 10, 11, 12, 13, 32, 160})"

definition trim_string :: "string \<Rightarrow> string" where
  "trim_string s = rev (dropWhile is_white_space (rev (dropWhile is_white_space s)))"

definition digit_of :: "char \<Rightarrow> nat option" where
  "digit_of c =
     (let n = (of_char c :: nat)
      in if 48 \<le> n \<and> n \<le> 57 then Some (n - 48)
         else if 97 \<le> n \<and> n \<le> 102 then Some (n - 87)
         else if 65 \<le> n \<and> n \<le> 70 then Some (n - 55)
         else None)"

definition is_digit :: "nat \<Rightarrow> char \<Rightarrow> bool" where
  "is_digit base c = (case digit_of c of None \<Rightarrow> False | Some d \<Rightarrow> d < base)"

definition digits_value :: "nat \<Rightarrow> string \<Rightarrow> int" where
  "digits_value base ds =
     foldl (\<lambda>a c. a * int base + (case digit_of c of None \<Rightarrow> 0 | Some d \<Rightarrow> int d)) 0 ds"

text \<open>NonDecimalIntegerLiteral: \<open>0x\<close>, \<open>0o\<close> or \<open>0b\<close> and at least one digit of that base.\<close>

definition parse_non_decimal :: "string \<Rightarrow> int option" where
  "parse_non_decimal s =
     (case s of
        c0 # c1 # ds \<Rightarrow>
          (let base = (if c1 = CHR ''x'' \<or> c1 = CHR ''X'' then 16
                       else if c1 = CHR ''o'' \<or> c1 = CHR ''O'' then 8
                       else if c1 = CHR ''b'' \<or> c1 = CHR ''B'' then 2 else 0)
           in if c0 = CHR ''0'' \<and> base \<noteq> 0 \<and> ds \<noteq> [] \<and> list_all (is_digit base) ds
              then Some (digits_value base ds) else None)
      | _ \<Rightarrow> None)"

text \<open>An optional ExponentPart that ends the literal.\<close>

definition parse_exponent :: "string \<Rightarrow> int option" where
  "parse_exponent s =
     (case s of
        [] \<Rightarrow> Some 0
      | c # r \<Rightarrow>
          if c = CHR ''e'' \<or> c = CHR ''E'' then
            (let neg = (r \<noteq> [] \<and> hd r = CHR ''-'');
                 ds = (if r \<noteq> [] \<and> (hd r = CHR ''-'' \<or> hd r = CHR ''+'') then tl r else r)
             in if ds \<noteq> [] \<and> list_all (is_digit 10) ds
                then Some (if neg then - digits_value 10 ds else digits_value 10 ds)
                else None)
          else None)"

text \<open>
  StrUnsignedDecimalLiteral other than \<open>Infinity\<close>: digits, an optional fraction and an
  optional exponent, with a digit before or after the point. The result is the
  mathematical value of the literal.
\<close>

definition parse_unsigned_decimal :: "string \<Rightarrow> rat option" where
  "parse_unsigned_decimal s =
     (let ip = takeWhile (is_digit 10) s;
          r1 = dropWhile (is_digit 10) s;
          dot = (r1 \<noteq> [] \<and> hd r1 = CHR ''.'');
          fp = (if dot then takeWhile (is_digit 10) (tl r1) else []);
          r2 = (if dot then dropWhile (is_digit 10) (tl r1) else r1)
      in if ip = [] \<and> fp = [] then None
         else case parse_exponent r2 of
                None \<Rightarrow> None
              | Some e \<Rightarrow> Some (of_int (digits_value 10 (ip @ fp)) * pow10 (e - int (length fp))))"

text \<open>
  StringToNumber: white space is trimmed, the empty string is +0, a string that is no
  StringNumericLiteral is NaN, and a literal gives the Number value for its mathematical
  value. Only a decimal literal takes a sign.
\<close>

definition StringToNumber :: "string \<Rightarrow> number" where
  "StringToNumber str =
     (let s = trim_string str
      in if s = [] then Num 0
         else case parse_non_decimal s of
                Some n \<Rightarrow> to_binary64 False (of_int n)
              | None \<Rightarrow>
                  (let neg = (hd s = CHR ''-'');
                       u = (if hd s = CHR ''-'' \<or> hd s = CHR ''+'' then tl s else s)
                   in if u = ''Infinity'' then (if neg then NegInfinity else PosInfinity)
                      else case parse_unsigned_decimal u of
                             None \<Rightarrow> NaN
                           | Some q \<Rightarrow> to_binary64 neg q))"


section \<open>Values, form data and the validator\<close>

text \<open>
  The values that reach the schema: what \<open>formData.get\<close> returns (a string, a File or
  null), the Number a coercion produces, and \<open>undefined\<close> for a property an object lacks.
\<close>

datatype jsvalue = JUndefined | JNull | JString string | JNumber number | JFile

datatype entry = Text string | Blob

type_synonym FormData = "(string \<times> entry) list"

text \<open>\<open>formData.get(name)\<close>: the first entry of that name, or null.\<close>

definition formData_get :: "FormData \<Rightarrow> string \<Rightarrow> jsvalue" where
  "formData_get formData name =
     (case map_of formData name of
        None \<Rightarrow> JNull
      | Some (Text s) \<Rightarrow> JString s
      | Some Blob \<Rightarrow> JFile)"

text \<open>
  \<open>Number(value)\<close>: null is +0, undefined is NaN, a string goes through StringToNumber,
  and a File goes through its string \<open>[object File]\<close>.
\<close>

fun Number :: "jsvalue \<Rightarrow> number" where
  "Number JUndefined = NaN"
| "Number JNull = Num 0"
| "Number (JString s) = StringToNumber s"
| "Number (JNumber n) = n"
| "Number JFile = StringToNumber ''[object File]''"

text \<open>The operator \<open>*\<close> on values: both operands are converted to Numbers.\<close>

definition times :: "jsvalue \<Rightarrow> jsvalue \<Rightarrow> number" where
  "times a b = number_times (Number a) (Number b)"

subsection \<open>The schema library\<close>

fun getParsedType :: "jsvalue \<Rightarrow> string" where
  "getParsedType JUndefined = ''undefined''"
| "getParsedType JNull = ''null''"
| "getParsedType (JString s) = ''string''"
| "getParsedType (JNumber n) = (if n = NaN then ''nan'' else ''number'')"
| "getParsedType JFile = ''object''"

datatype ZodIssueCode = invalid_type | invalid_enum_value | too_small

record ZodIssue =
  code :: ZodIssueCode
  path :: "string list"
  issue_message :: string

record params =
  invalid_type_error :: "string option"
  required_error :: "string option"

definition no_params :: params where
  "no_params = \<lparr>invalid_type_error = None, required_error = None\<rparr>"

text \<open>A check of kind \<open>min\<close> on a number: the bound, whether it is inclusive, its message.\<close>

datatype check = MinCheck number bool string

datatype ZodType =
    ZodString params
  | ZodNumber bool "check list" params
  | ZodEnum "string list" params

datatype ParseReturn = INVALID | DIRTY jsvalue | OK jsvalue

definition quote :: "string \<Rightarrow> string" where
  "quote s = [CHR 0x27] @ s @ [CHR 0x27]"

fun joinValues :: "string list \<Rightarrow> string" where
  "joinValues [] = []"
| "joinValues [v] = quote v"
| "joinValues (v # vs) = quote v @ '' | '' @ joinValues vs"

text \<open>The messages of the library's default error map.\<close>

definition default_invalid_type :: "string \<Rightarrow> string \<Rightarrow> string" where
  "default_invalid_type expected received =
     (if received = ''undefined'' then ''Required''
      else ''Expected '' @ expected @ '', received '' @ received)"

definition default_invalid_enum_value :: "string list \<Rightarrow> string \<Rightarrow> string" where
  "default_invalid_enum_value options received =
     ''Invalid enum value. Expected '' @ joinValues options @ '', received '' @ quote received"

text \<open>
  The error map a schema gets from its creation parameters: it replaces the default
  message of an \<open>invalid_type\<close> issue only, by \<open>required_error\<close> when the data is
  undefined and by \<open>invalid_type_error\<close> otherwise.
\<close>

definition customMap :: "params \<Rightarrow> ZodIssueCode \<Rightarrow> jsvalue \<Rightarrow> string \<Rightarrow> string" where
  "customMap p c data defaultError =
     (if c = invalid_enum_value then defaultError
      else if data = JUndefined then
        (case required_error p of Some m \<Rightarrow> m | None \<Rightarrow> defaultError)
      else if c \<noteq> invalid_type then defaultError
      else (case invalid_type_error p of Some m \<Rightarrow> m | None \<Rightarrow> defaultError))"

definition makeIssue :: "params \<Rightarrow> string list \<Rightarrow> jsvalue \<Rightarrow> ZodIssueCode \<Rightarrow> string \<Rightarrow> ZodIssue" where
  "makeIssue p pth data c defaultError =
     \<lparr>code = c, path = pth, issue_message = customMap p c data defaultError\<rparr>"

fun run_check :: "string list \<Rightarrow> number \<Rightarrow> check \<Rightarrow> ZodIssue list" where
  "run_check pth data (MinCheck bound inclusive msg) =
     (let tooSmall = (if inclusive then number_lt data bound else number_le data bound)
      in if tooSmall then [\<lparr>code = too_small, path = pth, issue_message = msg\<rparr>] else [])"

text \<open>
  Parsing one value against a type, at a path: the issues raised and the result. A
  number type that coerces replaces the data by \<open>Number(data)\<close> first, refuses NaN as
  an \<open>invalid_type\<close>, and runs every check. An enum refuses a value that is no string
  as an \<open>invalid_type\<close> and a string outside its values as an \<open>invalid_enum_value\<close>.
\<close>

fun parse_type :: "ZodType \<Rightarrow> string list \<Rightarrow> jsvalue \<Rightarrow> ZodIssue list \<times> ParseReturn" where
  "parse_type (ZodString p) pth data =
     (if getParsedType data \<noteq> ''string''
      then ([makeIssue p pth data invalid_type
               (default_invalid_type ''string'' (getParsedType data))], INVALID)
      else ([], OK data))"
| "parse_type (ZodNumber coerce checks p) pth input =
     (let data = (if coerce then JNumber (Number input) else input)
      in if getParsedType data \<noteq> ''number''
         then ([makeIssue p pth data invalid_type
                  (default_invalid_type ''number'' (getParsedType data))], INVALID)
         else
           (let issues = concat (map (run_check pth (Number data)) checks)
            in (issues, if issues = [] then OK data else DIRTY data)))"
| "parse_type (ZodEnum values p) pth data =
     (case data of
        JString s \<Rightarrow>
          if s \<in> set values then ([], OK data)
          else ([makeIssue p pth data invalid_enum_value
                   (default_invalid_enum_value values s)], INVALID)
      | _ \<Rightarrow>
          ([makeIssue p pth data invalid_type
              (default_invalid_type (joinValues values) (getParsedType data))], INVALID))"

text \<open>
  An object schema is its shape, in the order of its keys; an object is the list of its
  properties. \<open>omit\<close> keeps the keys that its argument does not set.
\<close>

type_synonym ZodObject = "(string \<times> ZodType) list"

type_synonym object = "(string \<times> jsvalue) list"

definition get_property :: "object \<Rightarrow> string \<Rightarrow> jsvalue" where
  "get_property obj key = (case map_of obj key of None \<Rightarrow> JUndefined | Some v \<Rightarrow> v)"

definition omit :: "(string \<times> bool) list \<Rightarrow> ZodObject \<Rightarrow> ZodObject" where
  "omit keys shape = filter (\<lambda>(key, t). map_of keys key \<noteq> Some True) shape"

text \<open>
  Parsing an object: every key of the shape is parsed, in order, and the issues of all
  of them are kept; keys outside the shape are stripped. The result is invalid when a
  key is, dirty when a key is dirty, and the object of the parsed values otherwise.
\<close>

definition parse_pairs :: "ZodObject \<Rightarrow> object \<Rightarrow> (string \<times> ZodIssue list \<times> ParseReturn) list" where
  "parse_pairs shape data = map (\<lambda>(key, t). (key, parse_type t [key] (get_property data key))) shape"

fun mergeObject :: "(string \<times> ZodIssue list \<times> ParseReturn) list \<Rightarrow> bool \<Rightarrow> object \<Rightarrow> (bool \<times> object) option" where
  "mergeObject [] dirty acc = Some (dirty, acc)"
| "mergeObject ((key, issues, INVALID) # pairs) dirty acc = None"
| "mergeObject ((key, issues, DIRTY v) # pairs) dirty acc =
     mergeObject pairs True (if v \<noteq> JUndefined then acc @ [(key, v)] else acc)"
| "mergeObject ((key, issues, OK v) # pairs) dirty acc =
     mergeObject pairs dirty (if v \<noteq> JUndefined then acc @ [(key, v)] else acc)"

text \<open>\<open>safeParse\<close>: the parsed object when the result is valid, the issues otherwise.\<close>

definition safeParse :: "ZodObject \<Rightarrow> object \<Rightarrow> ZodIssue list + object" where
  "safeParse shape data =
     (let pairs = parse_pairs shape data;
          issues = concat (map (\<lambda>(key, i, r). i) pairs)
      in case mergeObject pairs False [] of
           Some (False, value) \<Rightarrow> Inr value
         | _ \<Rightarrow> Inl issues)"

text \<open>
  \<open>error.flatten()\<close>: the messages of the issues grouped by the first element of their
  path, in the order of the issues; issues with an empty path are form errors.
\<close>

fun push_error :: "string \<Rightarrow> string \<Rightarrow> (string \<times> string list) list \<Rightarrow> (string \<times> string list) list" where
  "push_error key m [] = [(key, [m])]"
| "push_error key m ((k, ms) # rest) =
     (if k = key then (k, ms @ [m]) # rest else (k, ms) # push_error key m rest)"

record flattened =
  formErrors :: "string list"
  fieldErrors :: "(string \<times> string list) list"

definition flatten :: "ZodIssue list \<Rightarrow> flattened" where
  "flatten issues =
     foldl (\<lambda>acc issue.
              case path issue of
                [] \<Rightarrow> acc\<lparr>formErrors := formErrors acc @ [issue_message issue]\<rparr>
              | key # _ \<Rightarrow> acc\<lparr>fieldErrors := push_error key (issue_message issue) (fieldErrors acc)\<rparr>)
       \<lparr>formErrors = [], fieldErrors = []\<rparr> issues"

subsection \<open>The schemas of the invoice form\<close>

definition gt :: "number \<Rightarrow> string \<Rightarrow> ZodType \<Rightarrow> ZodType" where
  "gt bound msg t =
     (case t of
        ZodNumber coerce checks p \<Rightarrow> ZodNumber coerce (checks @ [MinCheck bound False msg]) p
      | _ \<Rightarrow> t)"

definition FormSchema :: ZodObject where
  "FormSchema =
     [(''id'', ZodString no_params),
      (''customerId'',
         ZodString \<lparr>invalid_type_error = Some ''Please select a customer.'', required_error = None\<rparr>),
      (''amount'',
         gt (Num 0) ''Please enter an amount greater than $0.'' (ZodNumber True [] no_params)),
      (''status'',
         ZodEnum [''pending'', ''paid'']
           \<lparr>invalid_type_error = Some ''Please select an invoice status.'', required_error = None\<rparr>),
      (''date'', ZodString no_params)]"

definition CreateInvoice :: ZodObject where
  "CreateInvoice = omit [(''id'', True), (''date'', True)] FormSchema"

definition UpdateInvoice :: ZodObject where
  "UpdateInvoice = omit [(''id'', True), (''date'', True)] FormSchema"

section \<open>Dates\<close>

text \<open>
  A time value is a number of milliseconds since the epoch, in UTC. The functions below
  are the abstract operations of ECMAScript on time values; \<open>YearFromTime t\<close> is the
  largest year whose first millisecond is not after \<open>t\<close>, found among the three years
  around the quotient of the day number by the mean length of a year.
\<close>

definition msPerDay :: int where
  "msPerDay = 86400000"

definition Day :: "int \<Rightarrow> int" where
  "Day t = t div msPerDay"

definition DaysInYear :: "int \<Rightarrow> int" where
  "DaysInYear y =
     (if y mod 4 \<noteq> 0 then 365
      else if y mod 100 \<noteq> 0 then 366
      else if y mod 400 \<noteq> 0 then 365 else 366)"

definition DayFromYear :: "int \<Rightarrow> int" where
  "DayFromYear y =
     365 * (y - 1970) + (y - 1969) div 4 - (y - 1901) div 100 + (y - 1601) div 400"

definition TimeFromYear :: "int \<Rightarrow> int" where
  "TimeFromYear y = msPerDay * DayFromYear y"

definition YearFromTime :: "int \<Rightarrow> int" where
  "YearFromTime t =
     (let y = 1970 + (400 * Day t) div 146097
      in if TimeFromYear (y + 1) \<le> t then y + 1
         else if TimeFromYear y \<le> t then y
         else y - 1)"

definition InLeapYear :: "int \<Rightarrow> int" where
  "InLeapYear t = (if DaysInYear (YearFromTime t) = 366 then 1 else 0)"

definition DayWithinYear :: "int \<Rightarrow> int" where
  "DayWithinYear t = Day t - DayFromYear (YearFromTime t)"

text \<open>Months are numbered from 0, days of the month from 1.\<close>

definition MonthFromTime :: "int \<Rightarrow> int" where
  "MonthFromTime t =
     (let d = DayWithinYear t; leap = InLeapYear t
      in if d < 31 then 0
         else if d < 59 + leap then 1
         else if d < 90 + leap then 2
         else if d < 120 + leap then 3
         else if d < 151 + leap then 4
         else if d < 181 + leap then 5
         else if d < 212 + leap then 6
         else if d < 243 + leap then 7
         else if d < 273 + leap then 8
         else if d < 304 + leap then 9
         else if d < 334 + leap then 10
         else 11)"

definition DateFromTime :: "int \<Rightarrow> int" where
  "DateFromTime t =
     (let d = DayWithinYear t; leap = InLeapYear t; m = MonthFromTime t
      in if m = 0 then d + 1
         else if m = 1 then d - 30
         else if m = 2 then d - 58 - leap
         else if m = 3 then d - 89 - leap
         else if m = 4 then d - 119 - leap
         else if m = 5 then d - 150 - leap
         else if m = 6 then d - 180 - leap
         else if m = 7 then d - 211 - leap
         else if m = 8 then d - 242 - leap
         else if m = 9 then d - 272 - leap
         else if m = 10 then d - 303 - leap
         else d - 333 - leap)"

definition HourFromTime :: "int \<Rightarrow> int" where
  "HourFromTime t = (t div 3600000) mod 24"

definition MinFromTime :: "int \<Rightarrow> int" where
  "MinFromTime t = (t div 60000) mod 60"

definition SecFromTime :: "int \<Rightarrow> int" where
  "SecFromTime t = (t div 1000) mod 60"

definition msFromTime :: "int \<Rightarrow> int" where
  "msFromTime t = t mod 1000"

text \<open>The last \<open>w\<close> decimal digits of \<open>n\<close>, with leading zeros.\<close>

fun zero_pad :: "nat \<Rightarrow> int \<Rightarrow> string" where
  "zero_pad 0 n = []"
| "zero_pad (Suc w) n = zero_pad w (n div 10) @ [char_of (48 + n mod 10)]"

text \<open>
  \<open>toISOString\<close>: \<open>YYYY-MM-DDTHH:mm:ss.sssZ\<close>, the year with four digits from 0 to 9999
  and as a sign and six digits outside.
\<close>

definition iso_year :: "int \<Rightarrow> string" where
  "iso_year y =
     (if 0 \<le> y \<and> y \<le> 9999 then zero_pad 4 y
      else (if y < 0 then ''-'' else ''+'') @ zero_pad 6 \<bar>y\<bar>)"

definition toISOString :: "int \<Rightarrow> string" where
  "toISOString t =
     iso_year (YearFromTime t) @ ''-'' @ zero_pad 2 (MonthFromTime t + 1) @ ''-'' @
     zero_pad 2 (DateFromTime t) @ ''T'' @ zero_pad 2 (HourFromTime t) @ '':'' @
     zero_pad 2 (MinFromTime t) @ '':'' @ zero_pad 2 (SecFromTime t) @ ''.'' @
     zero_pad 3 (msFromTime t) @ ''Z''"

text \<open>\<open>s.split(sep)\<close> for a separator of one character: never the empty list.\<close>

fun split_string :: "char \<Rightarrow> string \<Rightarrow> string list" where
  "split_string sep [] = [[]]"
| "split_string sep (c # cs) =
     (if c = sep then [] # split_string sep cs
      else (case split_string sep cs of
              piece # pieces \<Rightarrow> (c # piece) # pieces
            | [] \<Rightarrow> [[c]]))"

section \<open>The store and the effects of an action\<close>

text \<open>
  A row of the invoices table, and the three statements the actions send. The store
  keeps in a column the value bound to the statement's parameter.
\<close>

record invoice =
  invoice_id :: string
  customer_id :: jsvalue
  amount :: number
  status :: jsvalue
  date :: string

datatype statement =
    INSERT jsvalue number jsvalue string
  | UPDATE jsvalue number jsvalue string
  | DELETE string

text \<open>
  What a statement does to the table when the store accepts it. \<open>INSERT\<close> adds one row
  under the identifier the store assigns; \<open>UPDATE\<close> sets three columns of the rows with
  the given id; \<open>DELETE\<close> removes the rows with the given id.
\<close>

fun run_statement :: "string \<Rightarrow> statement \<Rightarrow> invoice list \<Rightarrow> invoice list" where
  "run_statement new_id (INSERT c a s d) rows =
     rows @ [\<lparr>invoice_id = new_id, customer_id = c, amount = a, status = s, date = d\<rparr>]"
| "run_statement new_id (UPDATE c a s i) rows =
     map (\<lambda>r. if invoice_id r = i then r\<lparr>customer_id := c, amount := a, status := s\<rparr> else r) rows"
| "run_statement new_id (DELETE i) rows = filter (\<lambda>r. invoice_id r \<noteq> i) rows"

text \<open>
  The store is outside the program: whether it rejects a statement (a lost connection, a
  constraint, a type it cannot convert), and with what error, and the identifier it gives
  a new row, are parameters.
\<close>

record store =
  rejects :: "statement \<Rightarrow> invoice list \<Rightarrow> string option"
  assigns :: "invoice list \<Rightarrow> string"

text \<open>
  What an action leaves behind, in order: the statements sent to the store, the lines
  written to the error console, and the paths marked stale.
\<close>

datatype event =
    Query statement
  | ConsoleError string string
  | Revalidated string

record world =
  invoices :: "invoice list"
  clock :: int
  trace :: "event list"

text \<open>
  An exception: an \<open>Error\<close> with its message, the error of a failed \<open>parse\<close>, the error
  of a rejected statement, and the signal \<open>redirect\<close> throws to leave for a path.
\<close>

datatype exn =
    Error string
  | ZodError "ZodIssue list"
  | PostgresError string
  | NEXT_REDIRECT string

type_synonym 'a action = "world \<Rightarrow> (exn + 'a) \<times> world"

definition return :: "'a \<Rightarrow> 'a action" where
  "return x = (\<lambda>w. (Inr x, w))"

definition throw :: "exn \<Rightarrow> 'a action" where
  "throw e = (\<lambda>w. (Inl e, w))"

definition bind :: "'a action \<Rightarrow> ('a \<Rightarrow> 'b action) \<Rightarrow> 'b action" where
  "bind m f = (\<lambda>w. case m w of (Inl e, w') \<Rightarrow> (Inl e, w') | (Inr x, w') \<Rightarrow> f x w')"

definition try_catch :: "'a action \<Rightarrow> (exn \<Rightarrow> 'a action) \<Rightarrow> 'a action" where
  "try_catch m handler = (\<lambda>w. case m w of (Inl e, w') \<Rightarrow> handler e w' | (Inr x, w') \<Rightarrow> (Inr x, w'))"

definition emit :: "event \<Rightarrow> unit action" where
  "emit ev = (\<lambda>w. (Inr (), w\<lparr>trace := trace w @ [ev]\<rparr>))"

definition describe :: "exn \<Rightarrow> string" where
  "describe e =
     (case e of Error m \<Rightarrow> m | ZodError issues \<Rightarrow> ''ZodError''
      | PostgresError m \<Rightarrow> m | NEXT_REDIRECT p \<Rightarrow> ''NEXT_REDIRECT'')"

text \<open>
  Sending a statement: it is recorded, and then either the store rejects it, the table is
  as before and the call throws, or the store runs it.
\<close>

definition sql :: "store \<Rightarrow> statement \<Rightarrow> unit action" where
  "sql db stmt =
     bind (emit (Query stmt)) (\<lambda>_ w.
       case rejects db stmt (invoices w) of
         Some err \<Rightarrow> (Inl (PostgresError err), w)
       | None \<Rightarrow>
           (Inr (), w\<lparr>invoices := run_statement (assigns db (invoices w)) stmt (invoices w)\<rparr>))"

definition console_error :: "string \<Rightarrow> exn \<Rightarrow> unit action" where
  "console_error label e = emit (ConsoleError label (describe e))"

definition revalidatePath :: "string \<Rightarrow> unit action" where
  "revalidatePath p = emit (Revalidated p)"

definition redirect :: "string \<Rightarrow> 'a action" where
  "redirect p = throw (NEXT_REDIRECT p)"

definition new_Date :: "int action" where
  "new_Date = (\<lambda>w. (Inr (clock w), w))"

text \<open>\<open>parse\<close> is \<open>safeParse\<close> that throws the error.\<close>

definition parse :: "ZodObject \<Rightarrow> object \<Rightarrow> object action" where
  "parse shape data =
     (case safeParse shape data of
        Inl issues \<Rightarrow> throw (ZodError issues)
      | Inr v \<Rightarrow> return v)"

section \<open>The actions\<close>

record State =
  errors :: "(string \<times> string list) list option"
  message :: "string option"

text \<open>The amount in cents, as both actions compute it from the validated amount.\<close>

definition amountInCents :: "jsvalue \<Rightarrow> number" where
  "amountInCents = (\<lambda>amount. times amount (JNumber (Num 100)))"

definition createInvoice :: "store \<Rightarrow> State \<Rightarrow> FormData \<Rightarrow> State action" where
  "createInvoice db prevState formData =
     (let validatedFields = safeParse CreateInvoice
            [(''customerId'', formData_get formData ''customerId''),
             (''amount'', formData_get formData ''amount''),
             (''status'', formData_get formData ''status'')]
      in case validatedFields of
           Inl error \<Rightarrow>
             return \<lparr>errors = Some (fieldErrors (flatten error)),
                     message = Some ''Missing Fields. Failed to Create Invoice.''\<rparr>
         | Inr _ \<Rightarrow>
             bind (parse CreateInvoice
                    [(''customerId'', formData_get formData ''customerId''),
                     (''amount'', formData_get formData ''amount''),
                     (''status'', formData_get formData ''status'')]) (\<lambda>data.
             let customerId = get_property data ''customerId'';
                 amount = get_property data ''amount'';
                 status = get_property data ''status''
             in
             bind new_Date (\<lambda>now.
             let date = hd (split_string CHR ''T'' (toISOString now))
             in
             bind (try_catch
                    (sql db (INSERT customerId (amountInCents amount) status date))
                    (\<lambda>error. console_error ''Error creating invoice:'' error)) (\<lambda>_.
             bind (revalidatePath ''/dashboard/invoices'') (\<lambda>_.
             redirect ''/dashboard/invoices'')))))"

definition updateInvoice :: "store \<Rightarrow> string \<Rightarrow> State \<Rightarrow> FormData \<Rightarrow> State action" where
  "updateInvoice db id' prevState formData =
     (let validatedFields = safeParse UpdateInvoice
            [(''customerId'', formData_get formData ''customerId''),
             (''amount'', formData_get formData ''amount''),
             (''status'', formData_get formData ''status'')]
      in case validatedFields of
           Inl error \<Rightarrow>
             return \<lparr>errors = Some (fieldErrors (flatten error)),
                     message = Some ''Missing Fields. Failed to Update Invoice.''\<rparr>
         | Inr _ \<Rightarrow>
             bind (parse UpdateInvoice
                    [(''customerId'', formData_get formData ''customerId''),
                     (''amount'', formData_get formData ''amount''),
                     (''status'', formData_get formData ''status'')]) (\<lambda>data.
             let customerId = get_property data ''customerId'';
                 amount = get_property data ''amount'';
                 status = get_property data ''status''
             in
             bind (try_catch
                    (sql db (UPDATE customerId (amountInCents amount) status id'))
                    (\<lambda>error. console_error ''Error updating invoice:'' error)) (\<lambda>_.
             bind (revalidatePath ''/dashboard/invoices'') (\<lambda>_.
             redirect ''/dashboard/invoices''))))"

definition deleteInvoice :: "store \<Rightarrow> string \<Rightarrow> unit action" where
  "deleteInvoice db id' =
     bind (throw (Error ''Failed to Delete Invoice'') :: unit action) (\<lambda>_.
     bind (sql db (DELETE id')) (\<lambda>_.
     revalidatePath ''/dashboard/invoices''))"

text \<open>The object both actions build from the submitted form and hand to the schema.\<close>

definition form_object :: "FormData \<Rightarrow> object" where
  "form_object formData =
     [(''customerId'', formData_get formData ''customerId''),
      (''amount'', formData_get formData ''amount''),
      (''status'', formData_get formData ''status'')]"

subsection \<open>Names for what the properties speak of\<close>

text \<open>The three field schemas that \<open>omit\<close> leaves of \<open>FormSchema\<close>.\<close>

definition customerId_type :: ZodType where
  "customerId_type =
     ZodString \<lparr>invalid_type_error = Some ''Please select a customer.'', required_error = None\<rparr>"

definition amount_type :: ZodType where
  "amount_type =
     ZodNumber True [MinCheck (Num 0) False ''Please enter an amount greater than $0.''] no_params"

definition status_type :: ZodType where
  "status_type =
     ZodEnum [''pending'', ''paid'']
       \<lparr>invalid_type_error = Some ''Please select an invoice status.'', required_error = None\<rparr>"

text \<open>The issues of the three fields of a form, each parsed on its own, in schema order.\<close>

definition validation_issues :: "FormData \<Rightarrow> ZodIssue list" where
  "validation_issues formData =
     fst (parse_type customerId_type [''customerId''] (formData_get formData ''customerId'')) @
     fst (parse_type amount_type [''amount''] (formData_get formData ''amount'')) @
     fst (parse_type status_type [''status''] (formData_get formData ''status''))"

text \<open>
  For every field of the schema that fails on its own, the field with all its messages:
  what a result that drops no field error holds.
\<close>

definition all_field_errors :: "FormData \<Rightarrow> (string \<times> string list) list" where
  "all_field_errors formData =
     filter (\<lambda>(key, ms). ms \<noteq> [])
       (map (\<lambda>(key, t). (key, map issue_message (fst (parse_type t [key] (formData_get formData key)))))
          CreateInvoice)"

text \<open>Whether a Number is an integer, as \<open>Number.isInteger\<close> decides it.\<close>

definition isInteger :: "number \<Rightarrow> bool" where
  "isInteger n = (case n of Num q \<Rightarrow> q = of_int \<lfloor>q\<rfloor> | NegZero \<Rightarrow> True | _ \<Rightarrow> False)"

text \<open>The statements the actions build from a validated object.\<close>

definition insert_statement :: "object \<Rightarrow> int \<Rightarrow> statement" where
  "insert_statement data now =
     INSERT (get_property data ''customerId'') (amountInCents (get_property data ''amount''))
       (get_property data ''status'') (hd (split_string CHR ''T'' (toISOString now)))"

definition update_statement :: "object \<Rightarrow> string \<Rightarrow> statement" where
  "update_statement data i =
     UPDATE (get_property data ''customerId'') (amountInCents (get_property data ''amount''))
       (get_property data ''status'') i"

text \<open>
  The calendar, said without time values: the lengths of the months of a year, the dates
  a year has, and the number of a date's day, counted from 1 January 1970.
\<close>

definition month_lengths :: "int \<Rightarrow> int list" where
  "month_lengths y =
     [31, if DaysInYear y = 366 then 29 else 28, 31, 30, 31, 30, 31, 31, 30, 31, 30, 31]"

definition valid_date :: "int \<Rightarrow> int \<Rightarrow> int \<Rightarrow> bool" where
  "valid_date y m d = (1 \<le> m \<and> m \<le> 12 \<and> 1 \<le> d \<and> d \<le> month_lengths y ! nat (m - 1))"

definition day_number :: "int \<Rightarrow> int \<Rightarrow> int \<Rightarrow> int" where
  "day_number y m d = DayFromYear y + sum_list (take (nat (m - 1)) (month_lengths y)) + (d - 1)"

text \<open>
  Reading a string of the form \<open>YYYY-MM-DD\<close>: ten characters, hyphens in the fifth and
  the eighth place, decimal digits elsewhere; the result is the year, month and day.
\<close>

definition read_date :: "string \<Rightarrow> (int \<times> int \<times> int) option" where
  "read_date s =
     (if length s = 10 \<and> s ! 4 = CHR ''-'' \<and> s ! 7 = CHR ''-'' \<and>
         list_all (is_digit 10) (take 4 s @ take 2 (drop 5 s) @ drop 8 s)
      then Some (digits_value 10 (take 4 s), digits_value 10 (take 2 (drop 5 s)),
                 digits_value 10 (drop 8 s))
      else None)"

text \<open>A store that accepts every statement, one that rejects every statement, and a world.\<close>

definition accepting_store :: store where
  "accepting_store = \<lparr>rejects = (\<lambda>stmt rows. None), assigns = (\<lambda>rows. ''inv2'')\<rparr>"

definition failing_store :: store where
  "failing_store =
     \<lparr>rejects = (\<lambda>stmt rows. Some ''connection refused''), assigns = (\<lambda>rows. ''inv2'')\<rparr>"

definition example_world :: world where
  "example_world =
     \<lparr>invoices =
        [\<lparr>invoice_id = ''inv1'', customer_id = JString ''c1'', amount = Num 2000,
          status = JString ''pending'', date = ''2024-01-15''\<rparr>],
      clock = 1700000000000,
      trace = []\<rparr>"

definition example_form :: FormData where
  "example_form = [(''customerId'', Text ''c1''), (''amount'', Text ''12.50''), (''status'', Text ''pending'')]"

definition example_update_form :: FormData where
  "example_update_form = [(''customerId'', Text ''c2''), (''amount'', Text ''5''), (''status'', Text ''paid'')]"

definition no_state :: State where
  "no_state = \<lparr>errors = None, message = None\<rparr>"

section \<open>Properties\<close>

subsection \<open>Sequencing\<close>

lemma bind_throw: "bind (throw e) f = throw e"
  by (simp add: bind_def throw_def)

lemma bind_return: "bind (return x) f = f x"
  by (simp add: bind_def return_def)

subsection \<open>Deleting an invoice\<close>

text \<open>
  Claim C1. For every id, store and world, \<open>deleteInvoice\<close> throws the error
  \<open>Failed to Delete Invoice\<close> and leaves the world as it was: the table is untouched
  whether or not a row has that id, and the trace gains no event, so neither the
  \<open>DELETE\<close> statement nor the invalidation of the listing is reached.
\<close>

theorem deleteInvoice_always_throws:
  "deleteInvoice db id' w = (Inl (Error ''Failed to Delete Invoice''), w)"
  by (simp add: deleteInvoice_def bind_throw) (simp add: throw_def)

subsection \<open>Validation\<close>

lemma CreateInvoice_shape:
  "CreateInvoice = [(''customerId'', customerId_type), (''amount'', amount_type), (''status'', status_type)]"
  by (simp add: CreateInvoice_def omit_def FormSchema_def gt_def customerId_type_def amount_type_def
        status_type_def)

lemma UpdateInvoice_shape:
  "UpdateInvoice = [(''customerId'', customerId_type), (''amount'', amount_type), (''status'', status_type)]"
  by (simp add: UpdateInvoice_def omit_def FormSchema_def gt_def customerId_type_def amount_type_def
        status_type_def)

lemma safeParse_three:
  "safeParse [(k1, t1), (k2, t2), (k3, t3)] data =
     (case (snd (parse_type t1 [k1] (get_property data k1)),
            snd (parse_type t2 [k2] (get_property data k2)),
            snd (parse_type t3 [k3] (get_property data k3))) of
        (OK v1, OK v2, OK v3) \<Rightarrow>
          Inr ((if v1 \<noteq> JUndefined then [(k1, v1)] else []) @
               (if v2 \<noteq> JUndefined then [(k2, v2)] else []) @
               (if v3 \<noteq> JUndefined then [(k3, v3)] else []))
      | _ \<Rightarrow> Inl (fst (parse_type t1 [k1] (get_property data k1)) @
                  fst (parse_type t2 [k2] (get_property data k2)) @
                  fst (parse_type t3 [k3] (get_property data k3))))"
proof -
  obtain i1 r1 where p1: "parse_type t1 [k1] (get_property data k1) = (i1, r1)"
    by (cases "parse_type t1 [k1] (get_property data k1)")
  obtain i2 r2 where p2: "parse_type t2 [k2] (get_property data k2) = (i2, r2)"
    by (cases "parse_type t2 [k2] (get_property data k2)")
  obtain i3 r3 where p3: "parse_type t3 [k3] (get_property data k3) = (i3, r3)"
    by (cases "parse_type t3 [k3] (get_property data k3)")
  show ?thesis
    by (cases r1; cases r2; cases r3) (simp_all add: safeParse_def parse_pairs_def p1 p2 p3)
qed

lemma formData_get_cases:
  "formData_get formData name = JNull \<or> formData_get formData name = JFile \<or>
   (\<exists>s. formData_get formData name = JString s)"
  by (simp add: formData_get_def split: option.splits entry.splits)

lemma parse_customerId:
  "parse_type customerId_type pth v =
     (case v of
        JString s \<Rightarrow> ([], OK v)
      | JUndefined \<Rightarrow> ([\<lparr>code = invalid_type, path = pth, issue_message = ''Required''\<rparr>], INVALID)
      | _ \<Rightarrow> ([\<lparr>code = invalid_type, path = pth, issue_message = ''Please select a customer.''\<rparr>],
              INVALID))"
  by (cases v) (simp_all add: customerId_type_def makeIssue_def customMap_def default_invalid_type_def)

lemma parse_amount:
  "parse_type amount_type pth v =
     (if Number v = NaN then
        ([\<lparr>code = invalid_type, path = pth, issue_message = ''Expected number, received nan''\<rparr>],
         INVALID)
      else if number_le (Number v) (Num 0) then
        ([\<lparr>code = too_small, path = pth,
           issue_message = ''Please enter an amount greater than $0.''\<rparr>], DIRTY (JNumber (Number v)))
      else ([], OK (JNumber (Number v))))"
  by (simp add: amount_type_def makeIssue_def customMap_def default_invalid_type_def no_params_def)

lemma parse_status:
  "parse_type status_type pth v =
     (case v of
        JString s \<Rightarrow>
          if s = ''pending'' \<or> s = ''paid'' then ([], OK v)
          else ([\<lparr>code = invalid_enum_value, path = pth,
                  issue_message = default_invalid_enum_value [''pending'', ''paid''] s\<rparr>], INVALID)
      | JUndefined \<Rightarrow> ([\<lparr>code = invalid_type, path = pth, issue_message = ''Required''\<rparr>], INVALID)
      | _ \<Rightarrow> ([\<lparr>code = invalid_type, path = pth,
                 issue_message = ''Please select an invoice status.''\<rparr>], INVALID))"
  by (cases v) (auto simp add: status_type_def makeIssue_def customMap_def default_invalid_type_def)

lemma get_property_form_object:
  "get_property (form_object formData) ''customerId'' = formData_get formData ''customerId''"
  "get_property (form_object formData) ''amount'' = formData_get formData ''amount''"
  "get_property (form_object formData) ''status'' = formData_get formData ''status''"
  by (simp_all add: get_property_def form_object_def)

text \<open>The object a form validates to.\<close>

lemma safeParse_form_object:
  "safeParse CreateInvoice (form_object formData) =
     (if validation_issues formData = [] then
        Inr [(''customerId'', formData_get formData ''customerId''),
             (''amount'', JNumber (Number (formData_get formData ''amount''))),
             (''status'', formData_get formData ''status'')]
      else Inl (validation_issues formData))"
  using formData_get_cases [of formData "''customerId''"] formData_get_cases [of formData "''status''"]
  by (auto simp add: CreateInvoice_shape safeParse_three get_property_form_object validation_issues_def
        parse_customerId parse_amount parse_status split: if_splits)

lemma UpdateInvoice_CreateInvoice: "UpdateInvoice = CreateInvoice"
  by (simp add: UpdateInvoice_shape CreateInvoice_shape)

lemma validated_properties:
  assumes "safeParse CreateInvoice (form_object formData) = Inr data"
  shows "get_property data ''customerId'' = formData_get formData ''customerId''"
    and "get_property data ''amount'' = JNumber (Number (formData_get formData ''amount''))"
    and "get_property data ''status'' = formData_get formData ''status''"
    and "validation_issues formData = []"
  using assms by (auto simp add: safeParse_form_object get_property_def split: if_splits)

subsection \<open>The course of an action\<close>

lemma submit_result:
  "bind (try_catch (sql db stmt) (\<lambda>error. console_error label error)) (\<lambda>_.
     bind (revalidatePath p) (\<lambda>_. redirect p)) w =
   (Inl (NEXT_REDIRECT p),
    case rejects db stmt (invoices w) of
      Some err \<Rightarrow> w\<lparr>trace := trace w @ [Query stmt, ConsoleError label err, Revalidated p]\<rparr>
    | None \<Rightarrow> w\<lparr>invoices := run_statement (assigns db (invoices w)) stmt (invoices w),
                    trace := trace w @ [Query stmt, Revalidated p]\<rparr>)"
  by (simp add: bind_def try_catch_def sql_def emit_def console_error_def revalidatePath_def
        redirect_def throw_def describe_def split: option.splits)

lemma createInvoice_invalid:
  assumes "safeParse CreateInvoice (form_object formData) = Inl issues"
  shows "createInvoice db prevState formData w =
           (Inr \<lparr>errors = Some (fieldErrors (flatten issues)),
                   message = Some ''Missing Fields. Failed to Create Invoice.''\<rparr>, w)"
  using assms by (simp add: createInvoice_def form_object_def return_def)

lemma updateInvoice_invalid:
  assumes "safeParse UpdateInvoice (form_object formData) = Inl issues"
  shows "updateInvoice db id' prevState formData w =
           (Inr \<lparr>errors = Some (fieldErrors (flatten issues)),
                   message = Some ''Missing Fields. Failed to Update Invoice.''\<rparr>, w)"
  using assms by (simp add: updateInvoice_def form_object_def return_def)

lemma createInvoice_valid:
  assumes "safeParse CreateInvoice (form_object formData) = Inr data"
  shows "createInvoice db prevState formData w =
           (Inl (NEXT_REDIRECT ''/dashboard/invoices''),
            case rejects db (insert_statement data (clock w)) (invoices w) of
              Some err \<Rightarrow>
                w\<lparr>trace := trace w @
                   [Query (insert_statement data (clock w)),
                    ConsoleError ''Error creating invoice:'' err,
                    Revalidated ''/dashboard/invoices'']\<rparr>
            | None \<Rightarrow>
                w\<lparr>invoices := run_statement (assigns db (invoices w))
                                 (insert_statement data (clock w)) (invoices w),
                  trace := trace w @
                   [Query (insert_statement data (clock w)), Revalidated ''/dashboard/invoices'']\<rparr>)"
proof -
  have sp: "safeParse CreateInvoice
              [(''customerId'', formData_get formData ''customerId''),
               (''amount'', formData_get formData ''amount''),
               (''status'', formData_get formData ''status'')] = Inr data"
    using assms by (simp add: form_object_def)
  have "createInvoice db prevState formData w =
          bind (try_catch (sql db (insert_statement data (clock w)))
                  (\<lambda>error. console_error ''Error creating invoice:'' error)) (\<lambda>_.
            bind (revalidatePath ''/dashboard/invoices'') (\<lambda>_. redirect ''/dashboard/invoices'')) w"
    unfolding createInvoice_def sp
    by (simp add: parse_def sp return_def new_Date_def insert_statement_def bind_def Let_def)
  then show ?thesis by (simp only: submit_result)
qed

lemma updateInvoice_valid:
  assumes "safeParse UpdateInvoice (form_object formData) = Inr data"
  shows "updateInvoice db id' prevState formData w =
           (Inl (NEXT_REDIRECT ''/dashboard/invoices''),
            case rejects db (update_statement data id') (invoices w) of
              Some err \<Rightarrow>
                w\<lparr>trace := trace w @
                   [Query (update_statement data id'),
                    ConsoleError ''Error updating invoice:'' err,
                    Revalidated ''/dashboard/invoices'']\<rparr>
            | None \<Rightarrow>
                w\<lparr>invoices := run_statement (assigns db (invoices w))
                                 (update_statement data id') (invoices w),
                  trace := trace w @
                   [Query (update_statement data id'), Revalidated ''/dashboard/invoices'']\<rparr>)"
proof -
  have sp: "safeParse UpdateInvoice
              [(''customerId'', formData_get formData ''customerId''),
               (''amount'', formData_get formData ''amount''),
               (''status'', formData_get formData ''status'')] = Inr data"
    using assms by (simp add: form_object_def)
  have "updateInvoice db id' prevState formData w =
          bind (try_catch (sql db (update_statement data id'))
                  (\<lambda>error. console_error ''Error updating invoice:'' error)) (\<lambda>_.
            bind (revalidatePath ''/dashboard/invoices'') (\<lambda>_. redirect ''/dashboard/invoices'')) w"
    unfolding updateInvoice_def sp
    by (simp add: parse_def sp return_def update_statement_def bind_def Let_def)
  then show ?thesis by (simp only: submit_result)
qed

subsection \<open>Validation failures\<close>

lemma fieldErrors_validation_issues:
  "fieldErrors (flatten (validation_issues formData)) = all_field_errors formData"
  using formData_get_cases [of formData "''customerId''"] formData_get_cases [of formData "''status''"]
  by (auto simp add: validation_issues_def all_field_errors_def CreateInvoice_shape flatten_def
        parse_customerId parse_amount parse_status split: if_splits)

lemma safeParse_Inl:
  assumes "safeParse CreateInvoice (form_object formData) = Inl issues"
  shows "issues = validation_issues formData" and "validation_issues formData \<noteq> []"
  using assms by (auto simp add: safeParse_form_object split: if_splits)

text \<open>
  Claim C3. When validation fails, each action returns, in the world as it was (no
  statement is sent, nothing is marked stale), the summary message of the action and
  the field errors of every field of the schema that fails, each with all its messages.
\<close>

theorem validation_failure_reports_every_field:
  assumes "safeParse CreateInvoice (form_object formData) = Inl issues"
  shows "createInvoice db prevState formData w =
           (Inr \<lparr>errors = Some (all_field_errors formData),
                   message = Some ''Missing Fields. Failed to Create Invoice.''\<rparr>, w) \<and>
         updateInvoice db id' prevState formData w =
           (Inr \<lparr>errors = Some (all_field_errors formData),
                   message = Some ''Missing Fields. Failed to Update Invoice.''\<rparr>, w)"
proof -
  have i: "issues = validation_issues formData"
    using assms by (rule safeParse_Inl)
  have u: "safeParse UpdateInvoice (form_object formData) = Inl issues"
    using assms by (simp add: UpdateInvoice_CreateInvoice)
  show ?thesis
    by (simp add: createInvoice_invalid [OF assms] updateInvoice_invalid [OF u] i
          fieldErrors_validation_issues)
qed

lemma all_field_errors_empty_form:
  "all_field_errors [] =
     [(''customerId'', [''Please select a customer.'']),
      (''amount'', [''Please enter an amount greater than $0.'']),
      (''status'', [''Please select an invoice status.''])]"
  by code_simp

lemma safeParse_empty_form:
  "safeParse CreateInvoice (form_object []) = Inl (validation_issues [])"
  by code_simp

theorem validation_failure_reports_every_field_witness:
  "safeParse CreateInvoice (form_object []) = Inl (validation_issues []) \<and>
   createInvoice failing_store no_state [] example_world =
     (Inr \<lparr>errors = Some [(''customerId'', [''Please select a customer.'']),
                            (''amount'', [''Please enter an amount greater than $0.'']),
                            (''status'', [''Please select an invoice status.''])],
             message = Some ''Missing Fields. Failed to Create Invoice.''\<rparr>, example_world) \<and>
   updateInvoice failing_store ''inv1'' no_state [] example_world =
     (Inr \<lparr>errors = Some [(''customerId'', [''Please select a customer.'']),
                            (''amount'', [''Please enter an amount greater than $0.'']),
                            (''status'', [''Please select an invoice status.''])],
             message = Some ''Missing Fields. Failed to Update Invoice.''\<rparr>, example_world)"
  using validation_failure_reports_every_field [OF safeParse_empty_form, of failing_store no_state example_world "''inv1''"]
  by (simp add: all_field_errors_empty_form safeParse_empty_form)

lemma invalid_form_result:
  assumes "validation_issues formData \<noteq> []"
  shows "createInvoice db prevState formData w =
           (Inr \<lparr>errors = Some (all_field_errors formData),
                   message = Some ''Missing Fields. Failed to Create Invoice.''\<rparr>, w)"
    and "updateInvoice db id' prevState formData w =
           (Inr \<lparr>errors = Some (all_field_errors formData),
                   message = Some ''Missing Fields. Failed to Update Invoice.''\<rparr>, w)"
proof -
  have c: "safeParse CreateInvoice (form_object formData) = Inl (validation_issues formData)"
    using assms by (simp add: safeParse_form_object)
  then have u: "safeParse UpdateInvoice (form_object formData) = Inl (validation_issues formData)"
    by (simp add: UpdateInvoice_CreateInvoice)
  show "createInvoice db prevState formData w =
           (Inr \<lparr>errors = Some (all_field_errors formData),
                   message = Some ''Missing Fields. Failed to Create Invoice.''\<rparr>, w)"
    by (simp add: createInvoice_invalid [OF c] fieldErrors_validation_issues)
  show "updateInvoice db id' prevState formData w =
           (Inr \<lparr>errors = Some (all_field_errors formData),
                   message = Some ''Missing Fields. Failed to Update Invoice.''\<rparr>, w)"
    by (simp add: updateInvoice_invalid [OF u] fieldErrors_validation_issues)
qed

lemma amount_errors:
  "map_of (all_field_errors formData) ''amount'' =
     (if Number (formData_get formData ''amount'') = NaN
      then Some [''Expected number, received nan'']
      else if number_le (Number (formData_get formData ''amount'')) (Num 0)
      then Some [''Please enter an amount greater than $0.'']
      else None)"
  using formData_get_cases [of formData "''customerId''"] formData_get_cases [of formData "''status''"]
  by (auto simp add: all_field_errors_def CreateInvoice_shape parse_customerId parse_amount parse_status)

lemma status_errors:
  "map_of (all_field_errors formData) ''status'' =
     (case formData_get formData ''status'' of
        JString s \<Rightarrow>
          if s = ''pending'' \<or> s = ''paid'' then None
          else Some [default_invalid_enum_value [''pending'', ''paid''] s]
      | _ \<Rightarrow> Some [''Please select an invoice status.''])"
  using formData_get_cases [of formData "''customerId''"] formData_get_cases [of formData "''status''"]
  by (auto simp add: all_field_errors_def CreateInvoice_shape parse_customerId parse_amount parse_status
        split: if_splits)

lemma amount_issue:
  assumes "Number (formData_get formData ''amount'') = NaN \<or>
           number_le (Number (formData_get formData ''amount'')) (Num 0)"
  shows "validation_issues formData \<noteq> []"
  using assms by (auto simp add: validation_issues_def parse_amount)

lemma status_issue:
  assumes "formData_get formData ''status'' \<noteq> JString ''pending''"
    and "formData_get formData ''status'' \<noteq> JString ''paid''"
  shows "validation_issues formData \<noteq> []"
  using assms formData_get_cases [of formData "''status''"]
  by (auto simp add: validation_issues_def parse_status)

subsection \<open>Worked examples\<close>

lemma example_form_valid:
  "safeParse CreateInvoice (form_object example_form) =
     Inr [(''customerId'', JString ''c1''), (''amount'', JNumber (Num (25 / 2))),
          (''status'', JString ''pending'')]"
  by code_simp

lemma example_update_form_valid:
  "safeParse UpdateInvoice (form_object example_update_form) =
     Inr [(''customerId'', JString ''c2''), (''amount'', JNumber (Num 5)), (''status'', JString ''paid'')]"
  by code_simp

lemma example_insert_statement:
  "insert_statement
     [(''customerId'', JString ''c1''), (''amount'', JNumber (Num (25 / 2))),
      (''status'', JString ''pending'')] 1700000000000 =
   INSERT (JString ''c1'') (Num 1250) (JString ''pending'') ''2023-11-14''"
  by code_simp

lemma example_update_statement:
  "update_statement
     [(''customerId'', JString ''c2''), (''amount'', JNumber (Num 5)), (''status'', JString ''paid'')]
     ''inv1'' =
   UPDATE (JString ''c2'') (Num 500) (JString ''paid'') ''inv1''"
  by code_simp

subsection \<open>Failures of the store\<close>

text \<open>
  Claim C2. For a form that passes validation, when the store rejects the statement the
  action sends, the error is written to the console and nothing else comes of it: the
  table is as before, the listing is marked stale, and the action leaves by the redirect
  to the listing, which is also how it leaves with a store that accepts every statement.
\<close>

theorem persistence_failure_is_swallowed:
  "(safeParse CreateInvoice (form_object formData) = Inr data \<and>
    rejects db (insert_statement data (clock w)) (invoices w) = Some err \<longrightarrow>
      createInvoice db prevState formData w =
        (Inl (NEXT_REDIRECT ''/dashboard/invoices''),
         w\<lparr>trace := trace w @
            [Query (insert_statement data (clock w)),
             ConsoleError ''Error creating invoice:'' err,
             Revalidated ''/dashboard/invoices'']\<rparr>) \<and>
      fst (createInvoice db prevState formData w) =
        fst (createInvoice (db\<lparr>rejects := \<lambda>stmt rows. None\<rparr>) prevState formData w)) \<and>
   (safeParse UpdateInvoice (form_object formData) = Inr data \<and>
    rejects db (update_statement data id') (invoices w) = Some err \<longrightarrow>
      updateInvoice db id' prevState formData w =
        (Inl (NEXT_REDIRECT ''/dashboard/invoices''),
         w\<lparr>trace := trace w @
            [Query (update_statement data id'),
             ConsoleError ''Error updating invoice:'' err,
             Revalidated ''/dashboard/invoices'']\<rparr>) \<and>
      fst (updateInvoice db id' prevState formData w) =
        fst (updateInvoice (db\<lparr>rejects := \<lambda>stmt rows. None\<rparr>) id' prevState formData w))"
  by (simp add: createInvoice_valid updateInvoice_valid)

theorem persistence_failure_is_swallowed_witness:
  "safeParse CreateInvoice (form_object example_form) =
     Inr [(''customerId'', JString ''c1''), (''amount'', JNumber (Num (25 / 2))),
          (''status'', JString ''pending'')] \<and>
   rejects failing_store (INSERT (JString ''c1'') (Num 1250) (JString ''pending'') ''2023-11-14'')
     (invoices example_world) = Some ''connection refused'' \<and>
   createInvoice failing_store no_state example_form example_world =
     (Inl (NEXT_REDIRECT ''/dashboard/invoices''),
      example_world\<lparr>trace :=
         [Query (INSERT (JString ''c1'') (Num 1250) (JString ''pending'') ''2023-11-14''),
          ConsoleError ''Error creating invoice:'' ''connection refused'',
          Revalidated ''/dashboard/invoices'']\<rparr>) \<and>
   safeParse UpdateInvoice (form_object example_update_form) =
     Inr [(''customerId'', JString ''c2''), (''amount'', JNumber (Num 5)), (''status'', JString ''paid'')] \<and>
   rejects failing_store (UPDATE (JString ''c2'') (Num 500) (JString ''paid'') ''inv1'')
     (invoices example_world) = Some ''connection refused'' \<and>
   updateInvoice failing_store ''inv1'' no_state example_update_form example_world =
     (Inl (NEXT_REDIRECT ''/dashboard/invoices''),
      example_world\<lparr>trace :=
         [Query (UPDATE (JString ''c2'') (Num 500) (JString ''paid'') ''inv1''),
          ConsoleError ''Error updating invoice:'' ''connection refused'',
          Revalidated ''/dashboard/invoices'']\<rparr>)"
  using persistence_failure_is_swallowed
          [of example_form
              "[(''customerId'', JString ''c1''), (''amount'', JNumber (Num (25 / 2))),
                (''status'', JString ''pending'')]"
              failing_store example_world "''connection refused''" no_state]
        persistence_failure_is_swallowed
          [of example_update_form
              "[(''customerId'', JString ''c2''), (''amount'', JNumber (Num 5)),
                (''status'', JString ''paid'')]"
              failing_store example_world "''connection refused''" no_state "''inv1''"]
  by (simp add: example_form_valid example_update_form_valid example_insert_statement
        example_update_statement failing_store_def example_world_def)

subsection \<open>One schema for both actions\<close>

text \<open>
  Claim C9. The schemas of the two actions are the same schema, so every object parses
  to the same result under both: the same validated object or the same issues. On a form
  that fails, the two actions return the same field errors and differ in the summary
  message only.
\<close>

theorem create_and_update_validate_alike:
  "CreateInvoice = UpdateInvoice \<and>
   safeParse CreateInvoice raw = safeParse UpdateInvoice raw \<and>
   (safeParse CreateInvoice (form_object formData) = Inl issues \<longrightarrow>
      createInvoice db prevState formData w =
        (Inr \<lparr>errors = Some (fieldErrors (flatten issues)),
                message = Some ''Missing Fields. Failed to Create Invoice.''\<rparr>, w) \<and>
      updateInvoice db id' prevState formData w =
        (Inr \<lparr>errors = Some (fieldErrors (flatten issues)),
                message = Some ''Missing Fields. Failed to Update Invoice.''\<rparr>, w))"
proof -
  have same: "CreateInvoice = UpdateInvoice"
    by (simp add: CreateInvoice_def UpdateInvoice_def)
  show ?thesis
    using same createInvoice_invalid [of formData issues db prevState w]
      updateInvoice_invalid [of formData issues db id' prevState w]
    by simp
qed

lemma zero_amount_form_fails:
  "safeParse CreateInvoice
     (form_object [(''customerId'', Text ''c1''), (''amount'', Text ''0''), (''status'', Text ''paid'')]) =
   Inl [\<lparr>code = too_small, path = [''amount''],
         issue_message = ''Please enter an amount greater than $0.''\<rparr>]"
  by code_simp

theorem create_and_update_validate_alike_witness:
  "safeParse CreateInvoice
     (form_object [(''customerId'', Text ''c1''), (''amount'', Text ''0''), (''status'', Text ''paid'')]) =
   Inl [\<lparr>code = too_small, path = [''amount''],
         issue_message = ''Please enter an amount greater than $0.''\<rparr>] \<and>
   createInvoice accepting_store no_state
     [(''customerId'', Text ''c1''), (''amount'', Text ''0''), (''status'', Text ''paid'')] example_world =
     (Inr \<lparr>errors = Some [(''amount'', [''Please enter an amount greater than $0.''])],
             message = Some ''Missing Fields. Failed to Create Invoice.''\<rparr>, example_world) \<and>
   updateInvoice accepting_store ''inv1'' no_state
     [(''customerId'', Text ''c1''), (''amount'', Text ''0''), (''status'', Text ''paid'')] example_world =
     (Inr \<lparr>errors = Some [(''amount'', [''Please enter an amount greater than $0.''])],
             message = Some ''Missing Fields. Failed to Update Invoice.''\<rparr>, example_world)"
proof -
  note h = zero_amount_form_fails
  have "createInvoice accepting_store no_state
          [(''customerId'', Text ''c1''), (''amount'', Text ''0''), (''status'', Text ''paid'')]
          example_world =
        (Inr \<lparr>errors = Some (fieldErrors (flatten
                  [\<lparr>code = too_small, path = [''amount''],
                    issue_message = ''Please enter an amount greater than $0.''\<rparr>])),
                message = Some ''Missing Fields. Failed to Create Invoice.''\<rparr>, example_world) \<and>
        updateInvoice accepting_store ''inv1'' no_state
          [(''customerId'', Text ''c1''), (''amount'', Text ''0''), (''status'', Text ''paid'')]
          example_world =
        (Inr \<lparr>errors = Some (fieldErrors (flatten
                  [\<lparr>code = too_small, path = [''amount''],
                    issue_message = ''Please enter an amount greater than $0.''\<rparr>])),
                message = Some ''Missing Fields. Failed to Update Invoice.''\<rparr>, example_world)"
    using create_and_update_validate_alike
            [of "[]" "[(''customerId'', Text ''c1''), (''amount'', Text ''0''), (''status'', Text ''paid'')]"
                "[\<lparr>code = too_small, path = [''amount''],
                   issue_message = ''Please enter an amount greater than $0.''\<rparr>]"
                accepting_store no_state example_world "''inv1''"] h
    by blast
  then show ?thesis
    using h by (simp add: flatten_def)
qed

subsection \<open>The messages of the amount and of the status\<close>

text \<open>
  Claim C10. When the form has no amount, the lookup gives null, \<open>Number\<close> turns it into
  +0, and the bound \<open>> 0\<close> fails: both actions return, without touching the world, field
  errors whose amount is the one message of the bound, not a message about a missing or
  ill-typed field.
\<close>

theorem absent_amount_is_zero:
  assumes "map_of formData ''amount'' = None"
  shows "formData_get formData ''amount'' = JNull \<and>
         Number (formData_get formData ''amount'') = Num 0 \<and>
         createInvoice db prevState formData w =
           (Inr \<lparr>errors = Some (all_field_errors formData),
                   message = Some ''Missing Fields. Failed to Create Invoice.''\<rparr>, w) \<and>
         updateInvoice db id' prevState formData w =
           (Inr \<lparr>errors = Some (all_field_errors formData),
                   message = Some ''Missing Fields. Failed to Update Invoice.''\<rparr>, w) \<and>
         map_of (all_field_errors formData) ''amount'' =
           Some [''Please enter an amount greater than $0.'']"
proof -
  have null: "formData_get formData ''amount'' = JNull"
    using assms by (simp add: formData_get_def)
  then have le: "number_le (Number (formData_get formData ''amount'')) (Num 0)"
    by (simp add: number_le_def)
  then have bad: "validation_issues formData \<noteq> []"
    by (simp add: amount_issue)
  show ?thesis
    using null le by (simp add: invalid_form_result [OF bad] amount_errors)
qed

lemma all_field_errors_no_amount:
  "all_field_errors [(''customerId'', Text ''c1''), (''status'', Text ''paid'')] =
     [(''amount'', [''Please enter an amount greater than $0.''])]"
  by code_simp

theorem absent_amount_is_zero_witness:
  "map_of [(''customerId'', Text ''c1''), (''status'', Text ''paid'')] ''amount'' = None \<and>
   createInvoice accepting_store no_state [(''customerId'', Text ''c1''), (''status'', Text ''paid'')]
     example_world =
     (Inr \<lparr>errors = Some [(''amount'', [''Please enter an amount greater than $0.''])],
             message = Some ''Missing Fields. Failed to Create Invoice.''\<rparr>, example_world)"
  using absent_amount_is_zero
          [of "[(''customerId'', Text ''c1''), (''status'', Text ''paid'')]" accepting_store no_state
              example_world]
  by (simp add: all_field_errors_no_amount)

text \<open>
  Claim C4, as amended. When the amount coerces to a Number that is at most 0, both
  actions fail validation without touching the world, and the errors of the amount are
  the one message of the bound. When the coercion fails (the Number is NaN), validation
  fails in the same way, but the error of the amount is the library's message for a
  value of the wrong type: the message of the bound belongs to the bound alone.
\<close>

theorem nonpositive_or_failed_amount:
  assumes "Number (formData_get formData ''amount'') = NaN \<or>
           number_le (Number (formData_get formData ''amount'')) (Num 0)"
  shows "createInvoice db prevState formData w =
           (Inr \<lparr>errors = Some (all_field_errors formData),
                   message = Some ''Missing Fields. Failed to Create Invoice.''\<rparr>, w) \<and>
         updateInvoice db id' prevState formData w =
           (Inr \<lparr>errors = Some (all_field_errors formData),
                   message = Some ''Missing Fields. Failed to Update Invoice.''\<rparr>, w) \<and>
         map_of (all_field_errors formData) ''amount'' =
           Some [if Number (formData_get formData ''amount'') = NaN
                 then ''Expected number, received nan''
                 else ''Please enter an amount greater than $0.'']"
proof -
  have bad: "validation_issues formData \<noteq> []"
    using assms by (rule amount_issue)
  show ?thesis
    using assms by (auto simp add: invalid_form_result [OF bad] amount_errors)
qed

lemma negative_amount_coerces:
  "Number (formData_get [(''customerId'', Text ''c1''), (''amount'', Text ''-3''), (''status'', Text ''paid'')]
            ''amount'') = Num (- 3)"
  by code_simp

lemma all_field_errors_negative_amount:
  "all_field_errors [(''customerId'', Text ''c1''), (''amount'', Text ''-3''), (''status'', Text ''paid'')] =
     [(''amount'', [''Please enter an amount greater than $0.''])]"
  by code_simp

theorem nonpositive_or_failed_amount_witness:
  "number_le
     (Number (formData_get
        [(''customerId'', Text ''c1''), (''amount'', Text ''-3''), (''status'', Text ''paid'')] ''amount''))
     (Num 0) \<and>
   createInvoice accepting_store no_state
     [(''customerId'', Text ''c1''), (''amount'', Text ''-3''), (''status'', Text ''paid'')] example_world =
     (Inr \<lparr>errors = Some [(''amount'', [''Please enter an amount greater than $0.''])],
             message = Some ''Missing Fields. Failed to Create Invoice.''\<rparr>, example_world) \<and>
   map_of (all_field_errors
      [(''customerId'', Text ''c1''), (''amount'', Text ''-3''), (''status'', Text ''paid'')]) ''amount'' =
     Some [''Please enter an amount greater than $0.'']"
proof -
  have h: "number_le
     (Number (formData_get
        [(''customerId'', Text ''c1''), (''amount'', Text ''-3''), (''status'', Text ''paid'')] ''amount''))
     (Num 0)"
    by (simp add: negative_amount_coerces number_le_def)
  show ?thesis
    using h nonpositive_or_failed_amount
              [of "[(''customerId'', Text ''c1''), (''amount'', Text ''-3''), (''status'', Text ''paid'')]"
                  accepting_store no_state example_world]
    by (simp add: all_field_errors_negative_amount negative_amount_coerces)
qed

text \<open>
  The claim as it stands fails on an amount that is no number: \<open>abc\<close> coerces to NaN,
  validation fails, and the errors of the amount do not hold the message of the bound.
\<close>

theorem failed_coercion_counterexample:
  "Number (formData_get
      [(''customerId'', Text ''c1''), (''amount'', Text ''abc''), (''status'', Text ''paid'')] ''amount'') = NaN \<and>
   createInvoice accepting_store no_state
     [(''customerId'', Text ''c1''), (''amount'', Text ''abc''), (''status'', Text ''paid'')] example_world =
     (Inr \<lparr>errors = Some [(''amount'', [''Expected number, received nan''])],
             message = Some ''Missing Fields. Failed to Create Invoice.''\<rparr>, example_world) \<and>
   ''Please enter an amount greater than $0.'' \<notin> set [''Expected number, received nan'']"
proof -
  have n: "Number (formData_get
      [(''customerId'', Text ''c1''), (''amount'', Text ''abc''), (''status'', Text ''paid'')] ''amount'') = NaN"
    by code_simp
  have e: "all_field_errors
      [(''customerId'', Text ''c1''), (''amount'', Text ''abc''), (''status'', Text ''paid'')] =
      [(''amount'', [''Expected number, received nan''])]"
    by code_simp
  have bad: "validation_issues
      [(''customerId'', Text ''c1''), (''amount'', Text ''abc''), (''status'', Text ''paid'')] \<noteq> []"
    using n by (simp add: amount_issue)
  show ?thesis
    using n by (simp add: invalid_form_result [OF bad] e)
qed

text \<open>
  Claim C5, as amended. When the status is neither \<open>pending\<close> nor \<open>paid\<close>, both actions
  fail validation without touching the world. The error of the status is the message of
  the schema when the status is no string (absent, or a file), and the library's message
  for a value outside an enumeration when it is a string.
\<close>

theorem status_outside_enum:
  assumes "formData_get formData ''status'' \<noteq> JString ''pending''"
    and "formData_get formData ''status'' \<noteq> JString ''paid''"
  shows "createInvoice db prevState formData w =
           (Inr \<lparr>errors = Some (all_field_errors formData),
                   message = Some ''Missing Fields. Failed to Create Invoice.''\<rparr>, w) \<and>
         updateInvoice db id' prevState formData w =
           (Inr \<lparr>errors = Some (all_field_errors formData),
                   message = Some ''Missing Fields. Failed to Update Invoice.''\<rparr>, w) \<and>
         map_of (all_field_errors formData) ''status'' =
           Some [case formData_get formData ''status'' of
                   JString s \<Rightarrow>
                     ''Invalid enum value. Expected '' @ quote ''pending'' @ '' | '' @ quote ''paid'' @
                     '', received '' @ quote s
                 | _ \<Rightarrow> ''Please select an invoice status.'']"
proof -
  have bad: "validation_issues formData \<noteq> []"
    using assms by (rule status_issue)
  show ?thesis
    using assms
    by (auto simp add: invalid_form_result [OF bad] status_errors default_invalid_enum_value_def
          split: jsvalue.splits)
qed

lemma all_field_errors_no_status:
  "all_field_errors [(''customerId'', Text ''c1''), (''amount'', Text ''5'')] =
     [(''status'', [''Please select an invoice status.''])]"
  by code_simp

theorem status_outside_enum_witness:
  "formData_get [(''customerId'', Text ''c1''), (''amount'', Text ''5'')] ''status'' \<noteq> JString ''pending'' \<and>
   formData_get [(''customerId'', Text ''c1''), (''amount'', Text ''5'')] ''status'' \<noteq> JString ''paid'' \<and>
   createInvoice accepting_store no_state [(''customerId'', Text ''c1''), (''amount'', Text ''5'')]
     example_world =
     (Inr \<lparr>errors = Some [(''status'', [''Please select an invoice status.''])],
             message = Some ''Missing Fields. Failed to Create Invoice.''\<rparr>, example_world)"
proof -
  have g: "formData_get [(''customerId'', Text ''c1''), (''amount'', Text ''5'')] ''status'' = JNull"
    by (simp add: formData_get_def)
  show ?thesis
    using status_outside_enum
            [of "[(''customerId'', Text ''c1''), (''amount'', Text ''5'')]" accepting_store no_state
                example_world]
    by (simp add: g all_field_errors_no_status)
qed

text \<open>
  The claim as it stands fails on a status that is a string outside the enumeration:
  the error of \<open>foo\<close> is not the message of the schema.
\<close>

theorem status_string_counterexample:
  "formData_get [(''customerId'', Text ''c1''), (''amount'', Text ''5''), (''status'', Text ''foo'')]
     ''status'' \<notin> {JString ''pending'', JString ''paid''} \<and>
   createInvoice accepting_store no_state
     [(''customerId'', Text ''c1''), (''amount'', Text ''5''), (''status'', Text ''foo'')] example_world =
     (Inr \<lparr>errors = Some [(''status'',
                [''Invalid enum value. Expected 'pending' | 'paid', received '' @ quote ''foo''])],
             message = Some ''Missing Fields. Failed to Create Invoice.''\<rparr>, example_world) \<and>
   ''Please select an invoice status.'' \<notin>
     set [''Invalid enum value. Expected 'pending' | 'paid', received '' @ quote ''foo'']"
proof -
  have g: "formData_get [(''customerId'', Text ''c1''), (''amount'', Text ''5''), (''status'', Text ''foo'')]
     ''status'' = JString ''foo''"
    by (simp add: formData_get_def)
  have e: "all_field_errors
      [(''customerId'', Text ''c1''), (''amount'', Text ''5''), (''status'', Text ''foo'')] =
      [(''status'', [''Invalid enum value. Expected 'pending' | 'paid', received '' @ quote ''foo''])]"
    by code_simp
  have bad: "validation_issues
      [(''customerId'', Text ''c1''), (''amount'', Text ''5''), (''status'', Text ''foo'')] \<noteq> []"
    using g by (simp add: status_issue)
  show ?thesis
    using g by (simp add: invalid_form_result [OF bad] e quote_def)
qed

subsection \<open>What an update changes\<close>

lemma run_update_frame:
  "map date (map (\<lambda>r. if invoice_id r = i then r\<lparr>customer_id := c, amount := a, status := s\<rparr> else r) rows) =
     map date rows"
  "map invoice_id (map (\<lambda>r. if invoice_id r = i then r\<lparr>customer_id := c, amount := a, status := s\<rparr> else r) rows) =
     map invoice_id rows"
  "filter (\<lambda>r. invoice_id r \<noteq> i)
     (map (\<lambda>r. if invoice_id r = i then r\<lparr>customer_id := c, amount := a, status := s\<rparr> else r) rows) =
     filter (\<lambda>r. invoice_id r \<noteq> i) rows"
  by (induction rows) simp_all

text \<open>
  Claim C8. For a form that passes validation, \<open>updateInvoice\<close> changes the table by its
  one \<open>UPDATE\<close> statement only. When the store runs it, each row with the given id gets
  the validated customer, the amount in cents and the validated status, and is otherwise
  the row it was. Whether the store runs the statement or rejects it, every row keeps
  its date and its id, and the rows with another id are untouched.
\<close>

theorem update_overwrites_three_columns:
  assumes "safeParse UpdateInvoice (form_object formData) = Inr data"
  shows "(rejects db (update_statement data id') (invoices w) = None \<longrightarrow>
            invoices (snd (updateInvoice db id' prevState formData w)) =
              map (\<lambda>r. if invoice_id r = id'
                        then r\<lparr>customer_id := get_property data ''customerId'',
                               amount := amountInCents (get_property data ''amount''),
                               status := get_property data ''status''\<rparr>
                        else r) (invoices w)) \<and>
         map date (invoices (snd (updateInvoice db id' prevState formData w))) =
           map date (invoices w) \<and>
         map invoice_id (invoices (snd (updateInvoice db id' prevState formData w))) =
           map invoice_id (invoices w) \<and>
         filter (\<lambda>r. invoice_id r \<noteq> id') (invoices (snd (updateInvoice db id' prevState formData w))) =
           filter (\<lambda>r. invoice_id r \<noteq> id') (invoices w)"
  by (cases "rejects db (update_statement data id') (invoices w)")
     (simp_all add: updateInvoice_valid [OF assms] update_statement_def run_update_frame)

theorem update_overwrites_three_columns_witness:
  "safeParse UpdateInvoice (form_object example_update_form) =
     Inr [(''customerId'', JString ''c2''), (''amount'', JNumber (Num 5)), (''status'', JString ''paid'')] \<and>
   invoices example_world =
     [\<lparr>invoice_id = ''inv1'', customer_id = JString ''c1'', amount = Num 2000,
       status = JString ''pending'', date = ''2024-01-15''\<rparr>] \<and>
   invoices (snd (updateInvoice accepting_store ''inv1'' no_state example_update_form example_world)) =
     [\<lparr>invoice_id = ''inv1'', customer_id = JString ''c2'', amount = Num 500,
       status = JString ''paid'', date = ''2024-01-15''\<rparr>]"
proof -
  have a: "amountInCents (JNumber (Num 5)) = Num 500"
    by code_simp
  show ?thesis
    using update_overwrites_three_columns
            [OF example_update_form_valid, of accepting_store "''inv1''" example_world no_state]
    by (simp add: example_update_form_valid accepting_store_def example_world_def get_property_def a)
qed

subsection \<open>The amount in cents\<close>

lemma validated_amount_examples:
  "parse_type amount_type [''amount''] (JString ''0.01'') =
     ([], OK (JNumber (Num (5764607523034235 / 2 ^ 59))))"
  "parse_type amount_type [''amount''] (JString ''100'') = ([], OK (JNumber (Num 100)))"
  "parse_type amount_type [''amount''] (JString ''12.50'') = ([], OK (JNumber (Num (25 / 2))))"
  "parse_type amount_type [''amount''] (JString ''1.1'') =
     ([], OK (JNumber (Num (2476979795053773 / 2 ^ 51))))"
  by code_simp+

lemma cents_examples:
  "amountInCents (JNumber (Num (5764607523034235 / 2 ^ 59))) = Num 1"
  "amountInCents (JNumber (Num 100)) = Num 10000"
  "amountInCents (JNumber (Num (25 / 2))) = Num 1250"
  "amountInCents (JNumber (Num (2476979795053773 / 2 ^ 51))) = Num (110 + 1 / 2 ^ 46)"
  by code_simp+

text \<open>
  Claim C6, as amended. The amount in cents is the validated amount times 100 in the
  arithmetic of Numbers, that is, rounded to the nearest binary64 and not to an integer.
  The amounts \<open>0.01\<close>, \<open>100\<close> and \<open>12.50\<close> validate to Numbers whose amounts in cents are
  the integers 1, 10000 and 1250.
\<close>

theorem amount_in_cents:
  "amountInCents (JNumber a) = number_times a (Num 100) \<and>
   parse_type amount_type [''amount''] (JString ''0.01'') =
     ([], OK (JNumber (Num (5764607523034235 / 2 ^ 59)))) \<and>
   amountInCents (JNumber (Num (5764607523034235 / 2 ^ 59))) = Num 1 \<and>
   parse_type amount_type [''amount''] (JString ''100'') = ([], OK (JNumber (Num 100))) \<and>
   amountInCents (JNumber (Num 100)) = Num 10000 \<and>
   parse_type amount_type [''amount''] (JString ''12.50'') = ([], OK (JNumber (Num (25 / 2)))) \<and>
   amountInCents (JNumber (Num (25 / 2))) = Num 1250 \<and>
   isInteger (Num 1) \<and> isInteger (Num 10000) \<and> isInteger (Num 1250)"
proof -
  have "amountInCents (JNumber a) = number_times a (Num 100)"
    by (simp add: amountInCents_def times_def)
  moreover have "isInteger (Num 1)" "isInteger (Num 10000)" "isInteger (Num 1250)"
    by (simp_all add: isInteger_def)
  ultimately show ?thesis
    using validated_amount_examples(1-3) cents_examples(1-3) by blast
qed

text \<open>
  The claim as it stands fails on the amount \<open>1.1\<close>: it validates, and its amount in
  cents is the Number next above 110, which is no integer.
\<close>

theorem amount_in_cents_counterexample:
  "parse_type amount_type [''amount''] (JString ''1.1'') =
     ([], OK (JNumber (Num (2476979795053773 / 2 ^ 51)))) \<and>
   amountInCents (JNumber (Num (2476979795053773 / 2 ^ 51))) = Num (110 + 1 / 2 ^ 46) \<and>
   \<not> isInteger (Num (110 + 1 / 2 ^ 46))"
proof -
  have "\<not> isInteger (Num (110 + 1 / 2 ^ 46))"
    by code_simp
  then show ?thesis
    using validated_amount_examples(4) cents_examples(4) by blast
qed

subsection \<open>The calendar\<close>

lemma succ_div:
  fixes y m :: int
  assumes "0 < m"
  shows "(y + 1) div m = (if (y + 1) mod m = 0 then y div m + 1 else y div m)"
proof -
  define q where "q = (y + 1) div m"
  define r where "r = (y + 1) mod m"
  have eq: "y + 1 = m * q + r"
    by (simp add: q_def r_def)
  have r: "0 \<le> r" "r < m"
    using assms by (simp_all add: r_def)
  show ?thesis
  proof (cases "r = 0")
    case True
    have "y = m * (q - 1) + (m - 1)"
      using eq True by (simp add: algebra_simps)
    moreover have "0 \<le> m - 1" "m - 1 < m"
      using assms by simp_all
    ultimately have "y div m = q - 1"
      by (rule int_div_pos_eq)
    then show ?thesis
      using True by (simp add: q_def r_def)
  next
    case False
    have "y = m * q + (r - 1)"
      using eq by simp
    moreover have "0 \<le> r - 1" "r - 1 < m"
      using r False by simp_all
    ultimately have "y div m = q"
      by (rule int_div_pos_eq)
    then show ?thesis
      using False by (simp add: q_def r_def)
  qed
qed

lemma mod_shift:
  fixes y m k :: int
  shows "(y - m * k) mod m = y mod m"
proof -
  have "(y - m * k) mod m = (y + m * (- k)) mod m"
    by simp
  also have "\<dots> = y mod m"
    by (rule mod_mult_self2)
  finally show ?thesis .
qed

lemma mod_100_4: "y mod 100 = 0 \<Longrightarrow> y mod 4 = 0" for y :: int
proof -
  assume "y mod 100 = 0"
  then have "100 dvd y" by (simp add: mod_eq_0_iff_dvd)
  moreover have "(4::int) dvd 100" by simp
  ultimately have "4 dvd y" by (rule dvd_trans [rotated])
  then show ?thesis by (simp add: mod_eq_0_iff_dvd)
qed

lemma mod_400_100: "y mod 400 = 0 \<Longrightarrow> y mod 100 = 0" for y :: int
proof -
  assume "y mod 400 = 0"
  then have "400 dvd y" by (simp add: mod_eq_0_iff_dvd)
  moreover have "(100::int) dvd 400" by simp
  ultimately have "100 dvd y" by (rule dvd_trans [rotated])
  then show ?thesis by (simp add: mod_eq_0_iff_dvd)
qed

lemma div_step:
  fixes y m k c :: int
  assumes "0 < m" and "c = m * k + 1"
  shows "(y + 1 - c) div m = (y - c) div m + (if y mod m = 0 then 1 else 0)"
proof -
  have e1: "y + 1 - c = (y - c) + 1"
    by simp
  have "(y - c) + 1 = y - m * k"
    using assms(2) by simp
  then have e2: "((y - c) + 1) mod m = y mod m"
    by (simp only: mod_shift)
  have h: "((y - c) + 1) div m = (if y mod m = 0 then (y - c) div m + 1 else (y - c) div m)"
    using succ_div [OF assms(1), of "y - c"] by (simp only: e2)
  show ?thesis
    unfolding e1 h by (cases "y mod m = 0") simp_all
qed

lemma DayFromYear_next: "DayFromYear (y + 1) = DayFromYear y + DaysInYear y"
proof -
  define A where "A = (y - 1969) div 4"
  define B where "B = (y - 1901) div 100"
  define C where "C = (y - 1601) div 400"
  define p where "p = (y mod 4 = 0)"
  define q where "q = (y mod 100 = 0)"
  define r where "r = (y mod 400 = 0)"
  have a: "(y + 1 - 1969) div 4 = A + (if p then 1 else 0)"
    unfolding A_def p_def by (rule div_step [of 4 1969 492]) simp_all
  have b: "(y + 1 - 1901) div 100 = B + (if q then 1 else 0)"
    unfolding B_def q_def by (rule div_step [of 100 1901 19]) simp_all
  have c: "(y + 1 - 1601) div 400 = C + (if r then 1 else 0)"
    unfolding C_def r_def by (rule div_step [of 400 1601 4]) simp_all
  have qp: "q \<Longrightarrow> p"
    unfolding p_def q_def by (rule mod_100_4)
  have rq: "r \<Longrightarrow> q"
    unfolding q_def r_def by (rule mod_400_100)
  have n: "DayFromYear (y + 1) =
             365 * (y + 1 - 1970) + (A + (if p then 1 else 0)) - (B + (if q then 1 else 0)) +
             (C + (if r then 1 else 0))"
    unfolding DayFromYear_def by (simp only: a b c)
  have d: "DayFromYear y = 365 * (y - 1970) + A - B + C"
    by (simp only: DayFromYear_def A_def B_def C_def)
  have l: "DaysInYear y = (if \<not> p then 365 else if \<not> q then 366 else if \<not> r then 365 else 366)"
    by (simp only: DaysInYear_def p_def q_def r_def)
  show ?thesis
    unfolding n d l using qp rq by (cases p; cases q; cases r; simp)
qed

lemma div_bounds:
  fixes x m :: int
  assumes "0 < m"
  shows "m * (x div m) \<le> x" and "x < m * (x div m) + m"
proof -
  have e: "x = m * (x div m) + x mod m"
    by simp
  have r: "0 \<le> x mod m" "x mod m < m"
    using assms by simp_all
  show "m * (x div m) \<le> x"
    using e r(1) by linarith
  show "x < m * (x div m) + m"
    using e r(2) by linarith
qed

lemma DayFromYear_bounds:
  assumes "y = 1970 + j"
  shows "146097 * j \<le> 400 * DayFromYear y + 506" and "400 * DayFromYear y \<le> 146097 * j + 589"
proof -
  define A where "A = (y - 1969) div 4"
  define B where "B = (y - 1901) div 100"
  define C where "C = (y - 1601) div 400"
  have a: "4 * A \<le> y - 1969" "y - 1969 < 4 * A + 4"
    unfolding A_def by (rule div_bounds, simp)+
  have b: "100 * B \<le> y - 1901" "y - 1901 < 100 * B + 100"
    unfolding B_def by (rule div_bounds, simp)+
  have c: "400 * C \<le> y - 1601" "y - 1601 < 400 * C + 400"
    unfolding C_def by (rule div_bounds, simp)+
  have d: "DayFromYear y = 365 * (y - 1970) + A - B + C"
    by (simp only: DayFromYear_def A_def B_def C_def)
  have d400: "400 * DayFromYear y = 146000 * j + 400 * A - 400 * B + 400 * C"
    unfolding d using assms by simp
  show "146097 * j \<le> 400 * DayFromYear y + 506"
    unfolding d400 using a b c assms by linarith
  show "400 * DayFromYear y \<le> 146097 * j + 589"
    unfolding d400 using a b c assms by linarith
qed

lemma time_le_iff: "(msPerDay * a \<le> t) = (a \<le> Day t)"
proof -
  define d where "d = t div 86400000"
  have b: "86400000 * d \<le> t" "t < 86400000 * d + 86400000"
    unfolding d_def by (rule div_bounds, simp)+
  have "(86400000 * a \<le> t) = (a \<le> d)"
    using b by linarith
  then show ?thesis
    by (simp only: msPerDay_def Day_def d_def)
qed

text \<open>The year of a time value is the year the time value lies in.\<close>

lemma YearFromTime_bounds:
  "DayFromYear (YearFromTime t) \<le> Day t \<and> Day t < DayFromYear (YearFromTime t + 1)"
proof -
  define d where "d = Day t"
  define k where "k = (400 * d) div 146097"
  define j0 where "j0 = k - 1"
  define j3 where "j3 = k + 2"
  define D0 where "D0 = DayFromYear (1970 + k - 1)"
  define D1 where "D1 = DayFromYear (1970 + k)"
  define D2 where "D2 = DayFromYear (1970 + k + 1)"
  define D3 where "D3 = DayFromYear (1970 + k + 1 + 1)"
  have kb: "146097 * k \<le> 400 * d" "400 * d < 146097 * k + 146097"
    unfolding k_def by (rule div_bounds, simp)+
  have "400 * D0 \<le> 146097 * j0 + 589"
    unfolding D0_def by (rule DayFromYear_bounds) (simp add: j0_def)
  then have lo: "D0 \<le> d"
    using kb j0_def by linarith
  have "146097 * j3 \<le> 400 * D3 + 506"
    unfolding D3_def by (rule DayFromYear_bounds) (simp add: j3_def)
  then have hi: "d < D3"
    using kb j3_def by linarith
  have y: "YearFromTime t =
             (if D2 \<le> d then 1970 + k + 1 else if D1 \<le> d then 1970 + k else 1970 + k - 1)"
    by (simp only: YearFromTime_def Let_def TimeFromYear_def time_le_iff D1_def D2_def d_def k_def)
  have e: "1970 + k - 1 + 1 = 1970 + k"
    by simp
  show ?thesis
    unfolding y d_def [symmetric]
    using lo hi
    by (simp only: e D0_def [symmetric] D1_def [symmetric] D2_def [symmetric] D3_def [symmetric]
          split: if_splits) simp
qed

lemma DayFromYear_mono:
  assumes "y \<le> z"
  shows "DayFromYear y \<le> DayFromYear z"
proof (cases "y = z")
  case True
  then show ?thesis by simp
next
  case False
  define jy where "jy = y - 1970"
  define jz where "jz = z - 1970"
  have "400 * DayFromYear y \<le> 146097 * jy + 589"
    by (rule DayFromYear_bounds) (simp add: jy_def)
  moreover have "146097 * jz \<le> 400 * DayFromYear z + 506"
    by (rule DayFromYear_bounds) (simp add: jz_def)
  moreover have "jy + 1 \<le> jz"
    using assms False by (simp add: jy_def jz_def)
  ultimately show ?thesis
    by linarith
qed

lemma DaysInYear_cases: "DaysInYear y = 365 \<or> DaysInYear y = 366"
  by (simp add: DaysInYear_def)

lemma DayWithinYear_bounds:
  "0 \<le> DayWithinYear t \<and> DayWithinYear t < DaysInYear (YearFromTime t)"
  using YearFromTime_bounds [of t] DayFromYear_next [of "YearFromTime t"]
  by (simp add: DayWithinYear_def)

text \<open>The month and the day of a time value are a date of its year, and the date of its day.\<close>

lemma civil_date:
  "valid_date (YearFromTime t) (MonthFromTime t + 1) (DateFromTime t) \<and>
   day_number (YearFromTime t) (MonthFromTime t + 1) (DateFromTime t) = Day t"
proof -
  define dw where "dw = DayWithinYear t"
  define L where "L = DaysInYear (YearFromTime t)"
  define D where "D = DayFromYear (YearFromTime t)"
  have r: "0 \<le> dw" "dw < L"
    using DayWithinYear_bounds [of t] by (simp_all add: dw_def L_def)
  have l: "L = 365 \<or> L = 366"
    unfolding L_def by (rule DaysInYear_cases)
  have day: "Day t = D + dw"
    by (simp add: dw_def D_def DayWithinYear_def)
  have m: "MonthFromTime t =
     (let d = dw; leap = (if L = 366 then 1 else 0)
      in if d < 31 then 0
         else if d < 59 + leap then 1
         else if d < 90 + leap then 2
         else if d < 120 + leap then 3
         else if d < 151 + leap then 4
         else if d < 181 + leap then 5
         else if d < 212 + leap then 6
         else if d < 243 + leap then 7
         else if d < 273 + leap then 8
         else if d < 304 + leap then 9
         else if d < 334 + leap then 10
         else 11)"
    by (simp only: MonthFromTime_def InLeapYear_def dw_def L_def)
  have dt: "DateFromTime t =
     (let d = dw; leap = (if L = 366 then 1 else 0); m = MonthFromTime t
      in if m = 0 then d + 1
         else if m = 1 then d - 30
         else if m = 2 then d - 58 - leap
         else if m = 3 then d - 89 - leap
         else if m = 4 then d - 119 - leap
         else if m = 5 then d - 150 - leap
         else if m = 6 then d - 180 - leap
         else if m = 7 then d - 211 - leap
         else if m = 8 then d - 242 - leap
         else if m = 9 then d - 272 - leap
         else if m = 10 then d - 303 - leap
         else d - 333 - leap)"
    by (simp only: DateFromTime_def InLeapYear_def dw_def L_def)
  have ml: "month_lengths (YearFromTime t) =
      [31, if L = 366 then 29 else 28, 31, 30, 31, 30, 31, 31, 30, 31, 30, 31]"
    by (simp only: month_lengths_def L_def)
  show ?thesis
    unfolding valid_date_def day_number_def ml day D_def [symmetric] dt
    unfolding m Let_def
    using r l by (auto split: if_splits)
qed

subsection \<open>Digits and the date part of a time stamp\<close>

lemma of_char_of_int:
  fixes a :: int
  assumes "0 \<le> a" and "a < 256"
  shows "(of_char (char_of a) :: nat) = nat a"
proof -
  have "int (of_char (char_of a)) = (of_char (char_of a) :: int)"
    by (rule of_nat_of_char)
  also have "\<dots> = a mod 256"
    by (rule of_char_of)
  also have "\<dots> = a"
    using assms by simp
  finally show ?thesis
    by simp
qed

lemma digit_char:
  fixes k :: int
  assumes "0 \<le> k" and "k < 10"
  shows "digit_of (char_of (48 + k)) = Some (nat k)"
    and "char_of (48 + k) \<noteq> CHR ''T''"
    and "char_of (48 + k) \<noteq> CHR ''-''"
proof -
  have c: "(of_char (char_of (48 + k)) :: nat) = nat (48 + k)"
    using assms by (intro of_char_of_int) simp_all
  show "digit_of (char_of (48 + k)) = Some (nat k)"
    using assms by (simp add: digit_of_def c nat_add_distrib Let_def)
  show "char_of (48 + k) \<noteq> CHR ''T''"
  proof
    assume "char_of (48 + k) = CHR ''T''"
    then have "(of_char (char_of (48 + k)) :: nat) = of_char CHR ''T''"
      by simp
    then show False
      using assms by (simp add: c)
  qed
  show "char_of (48 + k) \<noteq> CHR ''-''"
  proof
    assume "char_of (48 + k) = CHR ''-''"
    then have "(of_char (char_of (48 + k)) :: nat) = of_char CHR ''-''"
      by simp
    then show False
      using assms by (simp add: c)
  qed
qed

lemma digits_value_snoc:
  "digits_value b (ds @ [c]) =
     digits_value b ds * int b + (case digit_of c of None \<Rightarrow> 0 | Some d \<Rightarrow> int d)"
  by (simp add: digits_value_def)

lemma zero_pad_length: "length (zero_pad w n) = w"
  by (induction w arbitrary: n) simp_all

lemma zero_pad_chars:
  "list_all (is_digit 10) (zero_pad w n) \<and> CHR ''T'' \<notin> set (zero_pad w n) \<and>
   CHR ''-'' \<notin> set (zero_pad w n)"
proof (induction w arbitrary: n)
  case 0
  show ?case by simp
next
  case (Suc w)
  have r: "0 \<le> n mod 10" "n mod 10 < 10"
    by simp_all
  show ?case
    using Suc [of "n div 10"] digit_char [OF r]
    by (simp add: is_digit_def)
qed

lemma zero_pad_value: "digits_value 10 (zero_pad w n) = n mod 10 ^ w"
proof (induction w arbitrary: n)
  case 0
  show ?case by (simp add: digits_value_def)
next
  case (Suc w)
  have r: "0 \<le> n mod 10" "n mod 10 < 10"
    by simp_all
  have "digits_value 10 (zero_pad (Suc w) n) = (n div 10 mod 10 ^ w) * 10 + n mod 10"
    using Suc [of "n div 10"] digit_char(1) [OF r] r(1)
    by (simp add: digits_value_snoc)
  also have "\<dots> = n mod (10 * 10 ^ w)"
  proof -
    have "n mod (10 * 10 ^ w) = 10 * (n div 10 mod 10 ^ w) + n mod 10"
      by (rule zmod_zmult2_eq) simp
    then show ?thesis by simp
  qed
  finally show ?case by simp
qed

lemma split_string_first:
  assumes "sep \<notin> set xs"
  shows "\<exists>ps. split_string sep (xs @ sep # ys) = xs # ps"
  using assms by (induction xs) auto

lemma split_string_hd:
  assumes "sep \<notin> set xs"
  shows "hd (split_string sep (xs @ sep # ys)) = xs"
  using split_string_first [OF assms, of ys] by auto

lemma valid_date_bounds:
  assumes "valid_date y m d"
  shows "1 \<le> m \<and> m \<le> 12 \<and> 1 \<le> d \<and> d \<le> 31"
proof -
  have m: "1 \<le> m" "m \<le> 12" and d: "1 \<le> d" "d \<le> month_lengths y ! nat (m - 1)"
    using assms by (simp_all add: valid_date_def)
  have "m = 1 \<or> m = 2 \<or> m = 3 \<or> m = 4 \<or> m = 5 \<or> m = 6 \<or> m = 7 \<or> m = 8 \<or> m = 9 \<or>
        m = 10 \<or> m = 11 \<or> m = 12"
    using m by presburger
  then have "month_lengths y ! nat (m - 1) \<le> 31"
    by (auto simp add: month_lengths_def)
  then show ?thesis
    using m d by simp
qed

lemma year_range:
  assumes "- 62167219200000 \<le> t" and "t < 253402300800000"
  shows "0 \<le> YearFromTime t \<and> YearFromTime t \<le> 9999"
proof -
  have lo: "DayFromYear 0 \<le> Day t"
    using assms(1) time_le_iff [of "DayFromYear 0" t] by (simp add: DayFromYear_def msPerDay_def)
  have hi: "Day t < DayFromYear 10000"
    using assms(2) time_le_iff [of "DayFromYear 10000" t] by (simp add: DayFromYear_def msPerDay_def)
  have y: "DayFromYear (YearFromTime t) \<le> Day t" "Day t < DayFromYear (YearFromTime t + 1)"
    using YearFromTime_bounds [of t] by simp_all
  have "\<not> YearFromTime t + 1 \<le> 0"
    using DayFromYear_mono [of "YearFromTime t + 1" 0] lo y(2) by linarith
  moreover have "\<not> 10000 \<le> YearFromTime t"
    using DayFromYear_mono [of 10000 "YearFromTime t"] hi y(1) by linarith
  ultimately show ?thesis
    by simp
qed

lemma iso_year_chars: "CHR ''T'' \<notin> set (iso_year y)"
  using zero_pad_chars [of 4 y] zero_pad_chars [of 6 "\<bar>y\<bar>"] by (simp add: iso_year_def)

text \<open>The date part of a time stamp, for every time value.\<close>

lemma date_part:
  "hd (split_string CHR ''T'' (toISOString t)) =
     iso_year (YearFromTime t) @ ''-'' @ zero_pad 2 (MonthFromTime t + 1) @ ''-'' @
     zero_pad 2 (DateFromTime t)"
proof -
  have "CHR ''T'' \<notin> set (iso_year (YearFromTime t) @ ''-'' @ zero_pad 2 (MonthFromTime t + 1) @ ''-'' @
           zero_pad 2 (DateFromTime t))"
    using iso_year_chars [of "YearFromTime t"] zero_pad_chars [of 2 "MonthFromTime t + 1"]
      zero_pad_chars [of 2 "DateFromTime t"]
    by simp
  then have "hd (split_string CHR ''T''
        ((iso_year (YearFromTime t) @ ''-'' @ zero_pad 2 (MonthFromTime t + 1) @ ''-'' @
           zero_pad 2 (DateFromTime t)) @
         CHR ''T'' # (zero_pad 2 (HourFromTime t) @ '':'' @ zero_pad 2 (MinFromTime t) @ '':'' @
           zero_pad 2 (SecFromTime t) @ ''.'' @ zero_pad 3 (msFromTime t) @ ''Z''))) =
      iso_year (YearFromTime t) @ ''-'' @ zero_pad 2 (MonthFromTime t + 1) @ ''-'' @
           zero_pad 2 (DateFromTime t)"
    by (rule split_string_hd)
  then show ?thesis
    by (simp add: toISOString_def)
qed

lemma read_date_padded:
  assumes "0 \<le> y" "y \<le> 9999" "1 \<le> m" "m \<le> 12" "1 \<le> d" "d \<le> 31"
  shows "read_date (zero_pad 4 y @ ''-'' @ zero_pad 2 m @ ''-'' @ zero_pad 2 d) = Some (y, m, d)"
proof -
  have v: "digits_value 10 (zero_pad 4 y) = y" "digits_value 10 (zero_pad 2 m) = m"
    "digits_value 10 (zero_pad 2 d) = d"
    using assms by (simp_all add: zero_pad_value)
  have c: "list_all (is_digit 10) (zero_pad 4 y)" "list_all (is_digit 10) (zero_pad 2 m)"
    "list_all (is_digit 10) (zero_pad 2 d)"
    using zero_pad_chars by blast+
  show ?thesis
    by (simp add: read_date_def zero_pad_length nth_append v c)
qed

text \<open>
  For a time value in the years 0 to 9999, the date part of its time stamp has the form
  \<open>YYYY-MM-DD\<close> and reads as the date of the day the time value lies in.
\<close>

lemma date_part_reads:
  assumes "- 62167219200000 \<le> t" and "t < 253402300800000"
  shows "read_date (hd (split_string CHR ''T'' (toISOString t))) =
           Some (YearFromTime t, MonthFromTime t + 1, DateFromTime t)"
proof -
  have y: "0 \<le> YearFromTime t" "YearFromTime t \<le> 9999"
    using year_range [OF assms] by simp_all
  have b: "1 \<le> MonthFromTime t + 1 \<and> MonthFromTime t + 1 \<le> 12 \<and> 1 \<le> DateFromTime t \<and>
           DateFromTime t \<le> 31"
    using civil_date [of t]
      valid_date_bounds [of "YearFromTime t" "MonthFromTime t + 1" "DateFromTime t"]
    by blast
  have "read_date (zero_pad 4 (YearFromTime t) @ ''-'' @ zero_pad 2 (MonthFromTime t + 1) @ ''-'' @
          zero_pad 2 (DateFromTime t)) =
        Some (YearFromTime t, MonthFromTime t + 1, DateFromTime t)"
    using y b by (intro read_date_padded) simp_all
  then show ?thesis
    using y by (simp add: date_part iso_year_def)
qed

subsection \<open>The date of a new invoice\<close>

text \<open>
  Claim C7. For a form that passes validation, with the clock in the years 0 to 9999,
  \<open>createInvoice\<close> sends one \<open>INSERT\<close> whose date is the part of the time stamp of the
  clock before its \<open>T\<close>: it comes from the clock alone, nothing of the form goes into it.
  That date has the form \<open>YYYY-MM-DD\<close> and reads as the date of the UTC day the clock is
  in, and the row the store adds for the statement carries it.
\<close>

theorem new_invoice_is_dated_today:
  assumes "safeParse CreateInvoice (form_object formData) = Inr data"
    and "- 62167219200000 \<le> clock w" and "clock w < 253402300800000"
  shows "\<exists>today y m d.
           today = hd (split_string CHR ''T'' (toISOString (clock w))) \<and>
           read_date today = Some (y, m, d) \<and> valid_date y m d \<and>
           day_number y m d = clock w div 86400000 \<and>
           Query (INSERT (get_property data ''customerId'')
                    (amountInCents (get_property data ''amount''))
                    (get_property data ''status'') today)
             \<in> set (trace (snd (createInvoice db prevState formData w))) \<and>
           (rejects db (INSERT (get_property data ''customerId'')
                          (amountInCents (get_property data ''amount''))
                          (get_property data ''status'') today) (invoices w) = None \<longrightarrow>
              invoices (snd (createInvoice db prevState formData w)) =
                invoices w @
                [\<lparr>invoice_id = assigns db (invoices w),
                  customer_id = get_property data ''customerId'',
                  amount = amountInCents (get_property data ''amount''),
                  status = get_property data ''status'',
                  date = today\<rparr>])"
proof -
  define today where "today = hd (split_string CHR ''T'' (toISOString (clock w)))"
  have s: "insert_statement data (clock w) =
             INSERT (get_property data ''customerId'') (amountInCents (get_property data ''amount''))
               (get_property data ''status'') today"
    by (simp add: insert_statement_def today_def)
  have r: "read_date today =
             Some (YearFromTime (clock w), MonthFromTime (clock w) + 1, DateFromTime (clock w))"
    unfolding today_def using assms(2,3) by (rule date_part_reads)
  have c: "valid_date (YearFromTime (clock w)) (MonthFromTime (clock w) + 1) (DateFromTime (clock w))"
    "day_number (YearFromTime (clock w)) (MonthFromTime (clock w) + 1) (DateFromTime (clock w)) =
       clock w div 86400000"
    using civil_date [of "clock w"] by (simp_all add: Day_def msPerDay_def)
  have q: "Query (INSERT (get_property data ''customerId'')
                    (amountInCents (get_property data ''amount''))
                    (get_property data ''status'') today)
             \<in> set (trace (snd (createInvoice db prevState formData w)))"
    by (cases "rejects db (insert_statement data (clock w)) (invoices w)")
       (simp_all add: createInvoice_valid [OF assms(1)] s)
  have i: "rejects db (INSERT (get_property data ''customerId'')
                          (amountInCents (get_property data ''amount''))
                          (get_property data ''status'') today) (invoices w) = None \<longrightarrow>
              invoices (snd (createInvoice db prevState formData w)) =
                invoices w @
                [\<lparr>invoice_id = assigns db (invoices w),
                  customer_id = get_property data ''customerId'',
                  amount = amountInCents (get_property data ''amount''),
                  status = get_property data ''status'',
                  date = today\<rparr>]"
    by (simp add: createInvoice_valid [OF assms(1)] s)
  show ?thesis
    by (rule exI [of _ today], rule exI [of _ "YearFromTime (clock w)"],
        rule exI [of _ "MonthFromTime (clock w) + 1"], rule exI [of _ "DateFromTime (clock w)"])
       (intro conjI today_def r c q i)
qed

lemma example_today: "hd (split_string CHR ''T'' (toISOString 1700000000000)) = ''2023-11-14''"
  by code_simp

lemma example_read_date: "read_date ''2023-11-14'' = Some (2023, 11, 14)"
  by code_simp

theorem new_invoice_is_dated_today_witness:
  "safeParse CreateInvoice (form_object example_form) =
     Inr [(''customerId'', JString ''c1''), (''amount'', JNumber (Num (25 / 2))),
          (''status'', JString ''pending'')] \<and>
   - 62167219200000 \<le> clock example_world \<and> clock example_world < 253402300800000 \<and>
   read_date ''2023-11-14'' = Some (2023, 11, 14) \<and>
   day_number 2023 11 14 = clock example_world div 86400000 \<and>
   invoices (snd (createInvoice accepting_store no_state example_form example_world)) =
     invoices example_world @
     [\<lparr>invoice_id = ''inv2'', customer_id = JString ''c1'', amount = Num 1250,
       status = JString ''pending'', date = ''2023-11-14''\<rparr>]"
proof -
  have c: "clock example_world = 1700000000000"
    by (simp add: example_world_def)
  have a: "amountInCents (JNumber (Num (25 / 2))) = Num 1250"
    by code_simp
  obtain today y m d where
    t: "today = hd (split_string CHR ''T'' (toISOString (clock example_world)))"
    and r: "read_date today = Some (y, m, d)"
    and n: "day_number y m d = clock example_world div 86400000"
    and i: "rejects accepting_store
              (INSERT (get_property [(''customerId'', JString ''c1''), (''amount'', JNumber (Num (25 / 2))),
                         (''status'', JString ''pending'')] ''customerId'')
                 (amountInCents (get_property [(''customerId'', JString ''c1''),
                         (''amount'', JNumber (Num (25 / 2))), (''status'', JString ''pending'')] ''amount''))
                 (get_property [(''customerId'', JString ''c1''), (''amount'', JNumber (Num (25 / 2))),
                         (''status'', JString ''pending'')] ''status'') today)
              (invoices example_world) = None \<longrightarrow>
            invoices (snd (createInvoice accepting_store no_state example_form example_world)) =
              invoices example_world @
              [\<lparr>invoice_id = assigns accepting_store (invoices example_world),
                customer_id = get_property [(''customerId'', JString ''c1''),
                         (''amount'', JNumber (Num (25 / 2))), (''status'', JString ''pending'')] ''customerId'',
                amount = amountInCents (get_property [(''customerId'', JString ''c1''),
                         (''amount'', JNumber (Num (25 / 2))), (''status'', JString ''pending'')] ''amount''),
                status = get_property [(''customerId'', JString ''c1''),
                         (''amount'', JNumber (Num (25 / 2))), (''status'', JString ''pending'')] ''status'',
                date = today\<rparr>]"
    using new_invoice_is_dated_today
            [OF example_form_valid, of example_world accepting_store no_state]
    by (auto simp add: c)
  have t': "today = ''2023-11-14''"
    using t by (simp add: c example_today)
  show ?thesis
    using r n i
    by (simp add: t' c example_form_valid accepting_store_def get_property_def a example_read_date)
qed

end
